theory Spec2Isabelle
  imports Main "HOL-Library.Word"
begin

unbundle bit_operations_syntax

section \<open>Buffer (pvaproto.h)\<close>

text \<open>
  Modelled from the spec: \<open>Buffer\<close>, \<open>FixedBuf\<close>, \<open>VectorOutBuf\<close> and the primitive
  \<open>to_wire\<close>/\<open>from_wire\<close> overloads live in pvaproto.h, which is not among the
  sources. Section 4.1 of the specification describes them: a cursor over a byte region
  with a sticky fault flag, fixed-width integers in the configured byte order, \<open>Size\<close>
  and strings. The region is \<open>mem\<close>, the cursor \<open>pos\<close>; \<open>be\<close> says big-endian;
  \<open>growable\<close> tells a \<open>VectorOutBuf\<close>, which enlarges its vector when a write
  does not fit, from a \<open>FixedBuf\<close>, which faults.
\<close>

type_synonym byte = "8 word"

record Buffer =
  mem :: "byte list"
  pos :: nat
  err :: bool
  be :: bool
  growable :: bool

definition good :: "Buffer \<Rightarrow> bool" where
  "good b = (\<not> err b)"

definition fault :: "Buffer \<Rightarrow> Buffer" where
  "fault b = b\<lparr>err := True\<rparr>"

definition FixedBuf :: "bool \<Rightarrow> byte list \<Rightarrow> Buffer" where
  "FixedBuf e bs = \<lparr>mem = bs, pos = 0, err = False, be = e, growable = False\<rparr>"

definition VectorOutBuf :: "bool \<Rightarrow> byte list \<Rightarrow> Buffer" where
  "VectorOutBuf e bs = \<lparr>mem = bs, pos = 0, err = False, be = e, growable = True\<rparr>"

text \<open>
  Modelled from the spec: writing raw bytes at the cursor. A faulted buffer ignores the
  write (section 4.1: after \<open>fault()\<close> every primitive operation is a no-op).
\<close>

definition put_bytes :: "byte list \<Rightarrow> Buffer \<Rightarrow> Buffer" where
  "put_bytes bs b =
     (if err b then b
      else if pos b + length bs \<le> length (mem b)
        then b\<lparr>mem := take (pos b) (mem b) @ bs @ drop (pos b + length bs) (mem b),
                 pos := pos b + length bs\<rparr>
      else if growable b
        then b\<lparr>mem := take (pos b) (mem b) @ bs, pos := pos b + length bs\<rparr>
      else fault b)"

text \<open>
  Modelled from the spec: \<open>skip(n)\<close> moves the cursor and leaves the bytes it passes as
  they are.
\<close>

definition skip :: "nat \<Rightarrow> Buffer \<Rightarrow> Buffer" where
  "skip n b =
     (if err b then b
      else if pos b + n \<le> length (mem b) then b\<lparr>pos := pos b + n\<rparr>
      else if growable b
        then b\<lparr>mem := mem b @ replicate (pos b + n - length (mem b)) 0, pos := pos b + n\<rparr>
      else fault b)"

text \<open>
  Modelled from the spec: reading \<open>n\<close> raw bytes. A faulted or too short buffer yields
  nothing and is (or stays) faulted (section 5: a decoder that runs out of bytes sets
  fault and returns).
\<close>

definition get_bytes :: "nat \<Rightarrow> Buffer \<Rightarrow> byte list option \<times> Buffer" where
  "get_bytes n b =
     (if err b \<or> length (mem b) < pos b + n then (None, fault b)
      else (Some (take n (drop (pos b) (mem b))), b\<lparr>pos := pos b + n\<rparr>))"

text \<open>
  Modelled from the spec: fixed-width integers in the byte order of the buffer, least
  significant byte first, reversed when big-endian.
\<close>

definition le_bytes :: "nat \<Rightarrow> 'a::len word \<Rightarrow> byte list" where
  "le_bytes n w = map (\<lambda>i. ucast (drop_bit (8 * i) w)) [0..<n]"

fun word_of_le :: "byte list \<Rightarrow> 'a::len word" where
  "word_of_le [] = 0"
| "word_of_le (x # xs) = ucast x OR push_bit 8 (word_of_le xs)"

definition wire_bytes :: "bool \<Rightarrow> nat \<Rightarrow> 'a::len word \<Rightarrow> byte list" where
  "wire_bytes e n w = (if e then rev (le_bytes n w) else le_bytes n w)"

definition word_of_wire :: "bool \<Rightarrow> byte list \<Rightarrow> 'a::len word" where
  "word_of_wire e bs = word_of_le (if e then rev bs else bs)"

definition to_wire_u8 :: "8 word \<Rightarrow> Buffer \<Rightarrow> Buffer" where
  "to_wire_u8 v b = put_bytes [v] b"

definition to_wire_u16 :: "16 word \<Rightarrow> Buffer \<Rightarrow> Buffer" where
  "to_wire_u16 v b = put_bytes (wire_bytes (be b) 2 v) b"

definition to_wire_u32 :: "32 word \<Rightarrow> Buffer \<Rightarrow> Buffer" where
  "to_wire_u32 v b = put_bytes (wire_bytes (be b) 4 v) b"

definition to_wire_u64 :: "64 word \<Rightarrow> Buffer \<Rightarrow> Buffer" where
  "to_wire_u64 v b = put_bytes (wire_bytes (be b) 8 v) b"

text \<open>
  Modelled from the spec: \<open>from_wire(buf, val)\<close> for the fixed-width integers. It
  assigns through a reference: when the read fails the variable keeps the value it had,
  which is the first argument here.
\<close>

definition from_wire_u8 :: "8 word \<Rightarrow> Buffer \<Rightarrow> 8 word \<times> Buffer" where
  "from_wire_u8 old b = (case get_bytes 1 b of (None, b') \<Rightarrow> (old, b') | (Some bs, b') \<Rightarrow> (word_of_wire (be b) bs, b'))"

definition from_wire_u16 :: "16 word \<Rightarrow> Buffer \<Rightarrow> 16 word \<times> Buffer" where
  "from_wire_u16 old b = (case get_bytes 2 b of (None, b') \<Rightarrow> (old, b') | (Some bs, b') \<Rightarrow> (word_of_wire (be b) bs, b'))"

definition from_wire_u32 :: "32 word \<Rightarrow> Buffer \<Rightarrow> 32 word \<times> Buffer" where
  "from_wire_u32 old b = (case get_bytes 4 b of (None, b') \<Rightarrow> (old, b') | (Some bs, b') \<Rightarrow> (word_of_wire (be b) bs, b'))"

definition from_wire_u64 :: "64 word \<Rightarrow> Buffer \<Rightarrow> 64 word \<times> Buffer" where
  "from_wire_u64 old b = (case get_bytes 8 b of (None, b') \<Rightarrow> (old, b') | (Some bs, b') \<Rightarrow> (word_of_wire (be b) bs, b'))"

text \<open>
  Modelled from the spec: \<open>Size\<close>, a \<open>size_t\<close> count (section 4.1): one byte below
  254; the null sentinel \<open>size_t(-1)\<close> is the byte 0xFF; otherwise 0xFE and a 32-bit
  count, or a 64-bit count for a size that does not fit 32 bits. A reader that meets 0xFE
  reads the 32-bit form.
\<close>

type_synonym Size = "64 word"

definition size_null :: Size where
  "size_null = - 1"

definition to_wire_Size :: "Size \<Rightarrow> Buffer \<Rightarrow> Buffer" where
  "to_wire_Size n b =
     (if n < 254 then to_wire_u8 (ucast n) b
      else if n = size_null then to_wire_u8 0xFF b
      else if n < 2 ^ 32 then to_wire_u32 (ucast n) (to_wire_u8 0xFE b)
      else to_wire_u64 n (to_wire_u8 0xFE b))"

definition from_wire_Size :: "Size \<Rightarrow> Buffer \<Rightarrow> Size \<times> Buffer" where
  "from_wire_Size old b =
     (let (s, b1) = from_wire_u8 0 b in
      if err b1 then (old, b1)
      else if s < 254 then (ucast s, b1)
      else if s = 0xFF then (size_null, b1)
      else (let (n, b2) = from_wire_u32 0 b1 in if err b2 then (old, b2) else (ucast n, b2)))"

text \<open>
  Modelled from the spec: strings. A \<open>std::string\<close> is its bytes; on the wire a
  \<open>Size\<close> and then the bytes (section 4.1).
\<close>

type_synonym std_string = "byte list"

abbreviation str :: "string \<Rightarrow> std_string" where
  "str s \<equiv> map of_char s"

definition to_wire_string :: "std_string \<Rightarrow> Buffer \<Rightarrow> Buffer" where
  "to_wire_string s b = put_bytes s (to_wire_Size (of_nat (length s)) b)"

definition from_wire_string :: "std_string \<Rightarrow> Buffer \<Rightarrow> std_string \<times> Buffer" where
  "from_wire_string old b =
     (let (n, b1) = from_wire_Size 0 b in
      if err b1 then (old, b1)
      else (case get_bytes (unat n) b1 of (None, b2) \<Rightarrow> (old, b2) | (Some bs, b2) \<Rightarrow> (bs, b2)))"

section \<open>Server spine (src/src/server.cpp)\<close>

subsection \<open>Source registry\<close>

text \<open>
  A \<open>Source\<close> is seen by the server only through \<open>Source::onSearch(Search&)\<close>. The
  operation object shows the callback the searched names and lets it call \<open>claim()\<close> on
  any of them; the callback may also leave by throwing a \<open>std::exception\<close>. A source is
  therefore the function from the names to the positions it claims and to whether it threw.
\<close>

type_synonym Source = "string list \<Rightarrow> (nat \<Rightarrow> bool) \<times> bool"

text \<open>
  \<open>Server::Pvt::sources\<close> is a \<open>std::map\<close> keyed by \<open>std::pair<int, std::string>\<close>
  (order, name). It is kept as the list of its entries in iteration order; a
  \<open>std::map\<close> holds each key once.
\<close>

type_synonym source_key = "int \<times> string"
type_synonym registry = "(source_key \<times> Source) list"

definition registry_ok :: "registry \<Rightarrow> bool" where
  "registry_ok r = distinct (map fst r)"

text \<open>\<open>sources.find(key)\<close>: the entry with that key, if there is one.\<close>

fun find_source :: "source_key \<Rightarrow> registry \<Rightarrow> Source option" where
  "find_source k [] = None"
| "find_source k ((k', s) # r) = (if k' = k then Some s else find_source k r)"

text \<open>\<open>sources.erase(it)\<close> for the iterator that \<open>find\<close> returned: that one entry goes.\<close>

fun erase_source :: "source_key \<Rightarrow> registry \<Rightarrow> registry" where
  "erase_source k [] = []"
| "erase_source k ((k', s) # r) = (if k' = k then r else (k', s) # erase_source k r)"

datatype server_error = LogicError string | RuntimeError string

text \<open>
  The part of \<open>Server::Pvt\<close> that the registry operations touch. A \<open>Server\<close> is the
  shared pointer \<open>pvt\<close>, which is null for a default-constructed server.
\<close>

record Pvt =
  sources :: registry

type_synonym Server = "Pvt option"

text \<open>
  \<open>Server::removeSource(name, order)\<close>, lines 177-192: a null server throws; otherwise
  the entry keyed \<open>(order, name)\<close> is looked up, returned and erased. The result is the
  returned pointer (\<open>None\<close> for a null \<open>shared_ptr\<close>) and the server afterwards.
\<close>

definition removeSource :: "string \<Rightarrow> int \<Rightarrow> Server \<Rightarrow> server_error + (Source option \<times> Server)" where
  "removeSource name order srv =
     (case srv of
        None \<Rightarrow> Inl (LogicError ''NULL Server'')
      | Some pvt \<Rightarrow>
          (case find_source (order, name) (sources pvt) of
             None \<Rightarrow> Inr (None, Some pvt)
           | Some src \<Rightarrow>
               Inr (Some src, Some (pvt\<lparr>sources := erase_source (order, name) (sources pvt)\<rparr>))))"

text \<open>\<open>Server::getSource(name, order)\<close>, lines 194-208.\<close>

definition getSource :: "string \<Rightarrow> int \<Rightarrow> Server \<Rightarrow> server_error + Source option" where
  "getSource name order srv =
     (case srv of
        None \<Rightarrow> Inl (LogicError ''NULL Server'')
      | Some pvt \<Rightarrow> Inr (find_source (order, name) (sources pvt)))"

subsection \<open>Configuration from the environment\<close>

text \<open>
  Modelled from the spec: \<open>Config\<close> is declared in pvxs/server.h, which is not among
  the sources; these are the fields that server.cpp reads and writes (sections 4.4.5,
  4.4.6 and 6.2). The server GUID is \<open>effective.guid\<close>, an array of 12 bytes.
\<close>

record Config =
  interfaces :: "string list"
  beaconDestinations :: "string list"
  auto_beacon :: bool
  tcp_port :: "16 word"
  udp_port :: "16 word"
  guid :: "8 word list"

datatype log_entry =
    IgnoringInvalid string string
  | InvalidBool string
  | InvalidInteger string

text \<open>
  The regular expression \<open>\s*(\S+)(.*)\<close> of \<open>split_addr_into\<close>, matched against the
  whole input by \<open>std::regex_match\<close> (ECMAScript grammar): leading white space, a
  maximal run of non-space characters (group 1) and the rest of the input (group 2),
  where \<open>.\<close> matches no line terminator. Both quantified classes are disjoint, so
  the greedy match is the only one.
\<close>

definition is_space :: "char \<Rightarrow> bool" where
  "is_space c = (c = CHR '' '' \<or> c = CHR 0x09 \<or> c = CHR 0x0A \<or> c = CHR 0x0B \<or> c = CHR 0x0C \<or> c = CHR 0x0D)"

definition is_line_terminator :: "char \<Rightarrow> bool" where
  "is_line_terminator c = (c = CHR 0x0A \<or> c = CHR 0x0D)"

definition regex_word :: "string \<Rightarrow> (string \<times> string) option" where
  "regex_word inp =
     (let s = dropWhile is_space inp;
          w = takeWhile (\<lambda>c. \<not> is_space c) s;
          rest = dropWhile (\<lambda>c. \<not> is_space c) s
      in if w = [] \<or> (\<exists>c \<in> set rest. is_line_terminator c) then None else Some (w, rest))"

text \<open>
  \<open>split_addr_into(name, out, inp)\<close>, lines 46-62. The loop runs while the input is
  not empty and the expression matches. \<open>aToIPAddr\<close> followed by \<open>ipAddrToDottedIP\<close>
  (EPICS libCom, not part of the sources) is the parameter \<open>ip\<close>: \<open>None\<close> for a word it
  rejects, the dotted address otherwise. On a rejected word the loop logs and
  \<open>continue\<close>s; \<open>inp\<close> is advanced only on the accepted path (line 60). The state is
  the output vector and the log. The loop need not end, so the result is an option and
  \<open>None\<close> stands for a call that never returns.
\<close>

partial_function (option) split_addr_into ::
  "(string \<Rightarrow> string option) \<Rightarrow> string \<Rightarrow> string list \<times> log_entry list \<Rightarrow> string
     \<Rightarrow> (string list \<times> log_entry list) option" where
  "split_addr_into ip name st inp =
     (if inp = [] then Some st
      else case regex_word inp of
             None \<Rightarrow> Some st
           | Some (w, rest) \<Rightarrow>
               (case ip w of
                  None \<Rightarrow> split_addr_into ip name (fst st, snd st @ [IgnoringInvalid name w]) inp
                | Some dotted \<Rightarrow> split_addr_into ip name (fst st @ [dotted], snd st) rest))"

declare split_addr_into.simps [code]

text \<open>\<open>pickenv\<close>, lines 64-74: the first of the names that is set, with its value.\<close>

fun pickenv :: "(string \<rightharpoonup> string) \<Rightarrow> string list \<Rightarrow> (string \<times> string) option" where
  "pickenv env [] = None"
| "pickenv env (n # ns) = (case env n of Some val \<Rightarrow> Some (n, val) | None \<Rightarrow> pickenv env ns)"

text \<open>
  \<open>epicsStrCaseCmp(a, b) == 0\<close> (EPICS libCom): equality up to the case of ASCII
  letters.
\<close>

definition to_upper :: "char \<Rightarrow> char" where
  "to_upper c = (if (97::nat) \<le> of_char c \<and> of_char c \<le> (122::nat) then char_of (of_char c - (32::nat)) else c)"

definition epicsStrCaseCmp_eq :: "string \<Rightarrow> string \<Rightarrow> bool" where
  "epicsStrCaseCmp_eq a b = (map to_upper a = map to_upper b)"

text \<open>
  \<open>Config::from_env()\<close>, lines 78-120. \<open>dflt\<close> is the default-constructed \<open>Config\<close>
  (its member initialisers are in pvxs/server.h), \<open>lexical_cast\<close> is
  \<open>lexical_cast<unsigned short>\<close> of utilpvt.h, \<open>None\<close> where it throws. The result is
  the configuration and the log, or \<open>None\<close> when a call of \<open>split_addr_into\<close> does not
  return.
\<close>

definition from_env_ports ::
  "(string \<Rightarrow> 16 word option) \<Rightarrow> (string \<rightharpoonup> string) \<Rightarrow> Config \<times> log_entry list \<Rightarrow> Config \<times> log_entry list" where
  "from_env_ports lexical_cast env st =
     (let (ret, lg) = st;
          (ret, lg) =
            (case pickenv env [''EPICS_PVAS_AUTO_BEACON_ADDR_LIST'', ''EPICS_PVA_AUTO_ADDR_LIST''] of
               None \<Rightarrow> (ret, lg)
             | Some (name, val) \<Rightarrow>
                 if epicsStrCaseCmp_eq val ''YES'' then (ret\<lparr>auto_beacon := True\<rparr>, lg)
                 else if epicsStrCaseCmp_eq val ''NO'' then (ret\<lparr>auto_beacon := False\<rparr>, lg)
                 else (ret, lg @ [InvalidBool name]));
          (ret, lg) =
            (case pickenv env [''EPICS_PVAS_SERVER_PORT'', ''EPICS_PVA_SERVER_PORT''] of
               None \<Rightarrow> (ret, lg)
             | Some (name, val) \<Rightarrow>
                 (case lexical_cast val of
                    Some p \<Rightarrow> (ret\<lparr>tcp_port := p\<rparr>, lg)
                  | None \<Rightarrow> (ret, lg @ [InvalidInteger name])))
      in (case pickenv env [''EPICS_PVAS_BROADCAST_PORT'', ''EPICS_PVA_BROADCAST_PORT''] of
            None \<Rightarrow> (ret, lg)
          | Some (name, val) \<Rightarrow>
              (case lexical_cast val of
                 Some p \<Rightarrow> (ret\<lparr>udp_port := p\<rparr>, lg)
               | None \<Rightarrow> (ret, lg @ [InvalidInteger name]))))"

definition from_env ::
  "(string \<Rightarrow> string option) \<Rightarrow> (string \<Rightarrow> 16 word option) \<Rightarrow> Config \<Rightarrow> (string \<rightharpoonup> string)
     \<Rightarrow> (Config \<times> log_entry list) option" where
  "from_env ip lexical_cast dflt env =
     (let ret = dflt\<lparr>udp_port := 5076\<rparr> in
      case (case pickenv env [''EPICS_PVAS_INTF_ADDR_LIST''] of
              None \<Rightarrow> Some (interfaces ret, [])
            | Some (name, val) \<Rightarrow> split_addr_into ip name (interfaces ret, []) val) of
        None \<Rightarrow> None
      | Some (ifs, lg) \<Rightarrow>
          (case (case pickenv env [''EPICS_PVAS_BEACON_ADDR_LIST'', ''EPICS_PVA_ADDR_LIST''] of
                   None \<Rightarrow> Some (beaconDestinations ret, lg)
                 | Some (name, val) \<Rightarrow> split_addr_into ip name (beaconDestinations ret, lg) val) of
             None \<Rightarrow> None
           | Some (bds, lg) \<Rightarrow>
               Some (from_env_ports lexical_cast env
                       (ret\<lparr>interfaces := ifs, beaconDestinations := bds\<rparr>, lg))))"

subsection \<open>Search replies and beacons\<close>

text \<open>
  Modelled from the spec: the message header of pvaproto.h (section 6.1: magic 0xCA,
  a version byte, a flags byte whose \<open>Server\<close> bit marks a message from a server and
  whose endian bit gives the byte order of the body, the command, and the body length
  in that byte order). The header file is not among the sources; the numeric values of
  the version, flags and commands below are those of the pvAccess protocol.
\<close>

definition pva_version_server :: byte where "pva_version_server = 2"
definition pva_flags_Server :: byte where "pva_flags_Server = 0x40"
definition pva_flags_MSB :: byte where "pva_flags_MSB = 0x80"
definition CMD_BEACON :: byte where "CMD_BEACON = 0x00"
definition CMD_SEARCH_RESPONSE :: byte where "CMD_SEARCH_RESPONSE = 0x04"

record Header =
  cmd :: byte
  flags :: byte
  len :: "32 word"

definition to_wire_Header :: "Header \<Rightarrow> Buffer \<Rightarrow> Buffer" where
  "to_wire_Header h b =
     to_wire_u32 (len h)
       (to_wire_u8 (cmd h)
         (to_wire_u8 (flags h OR (if be b then pva_flags_MSB else 0))
           (to_wire_u8 pva_version_server
             (to_wire_u8 0xCA b))))"

text \<open>
  Modelled from the spec: \<open>to_wire(buf, SockAddr::any(AF_INET))\<close>, the wildcard address
  0.0.0.0 in the 16 bytes the protocol gives an address (an IPv4 address mapped into
  IPv6); the overload is in the missing headers.
\<close>

definition sockaddr_any_wire :: "byte list" where
  "sockaddr_any_wire = replicate 10 0 @ [0xFF, 0xFF] @ replicate 4 0"

definition to_wire_SockAddr_any :: "Buffer \<Rightarrow> Buffer" where
  "to_wire_SockAddr_any b = put_bytes sockaddr_any_wire b"

text \<open>
  Modelled from the spec: \<open>UDPManager::Search\<close> is declared in udp_collector.h, which
  is not among the sources; section 4.4.3 gives a search message its search id, its
  must-reply flag and its names with their ids; \<open>src\<close> is the sender.
\<close>

record Search =
  src :: string
  searchID :: "32 word"
  mustReply :: bool
  names :: "(32 word \<times> string) list"

text \<open>
  Modelled from the spec: \<open>Source::Search::Name\<close> (pvxs/server.h), a name and its claim
  flag, the members \<open>_name\<close> and \<open>_claim\<close> that \<open>onSearch\<close> sets.
\<close>

record Name =
  name_of :: string
  claim :: bool

text \<open>
  Modelled from the spec: \<open>Server::Pvt\<close> is declared in serverconn.h, which is not
  among the sources; these are the members that searches and beacons use, as the
  constructor (lines 308-315) and section 4.4 have them. The two message vectors are
  separate heap blocks; \<open>searchReply_data\<close> and \<open>beaconMsg_data\<close> are the addresses
  that \<open>data()\<close> returns for them.
\<close>

record PvtIO = Pvt +
  effective :: Config
  searchOp_names :: "Name list"
  searchReply :: "byte list"
  searchReply_data :: int
  beaconMsg :: "byte list"
  beaconMsg_data :: int
  beaconDest :: "string list"

datatype io_log =
    SourceError string
  | SearchBufferLogicError

text \<open>
  Lines 554-564: every source of the registry, in the order of the map, is shown the
  names. A claim sets the flag of that name; an exception is caught and logged, and the
  flags the source set before it threw stay set.
\<close>

definition apply_claims :: "(nat \<Rightarrow> bool) \<Rightarrow> Name list \<Rightarrow> Name list" where
  "apply_claims cl ns = map (\<lambda>(i, n). n\<lparr>claim := claim n \<or> cl i\<rparr>) (zip [0..<length ns] ns)"

fun run_sources :: "registry \<Rightarrow> Name list \<times> io_log list \<Rightarrow> Name list \<times> io_log list" where
  "run_sources [] st = st"
| "run_sources ((k, s) # r) (ns, lg) =
     (let (cl, threw) = s (map name_of ns)
      in run_sources r (apply_claims cl ns, if threw then lg @ [SourceError (snd k)] else lg))"

text \<open>Lines 566-570: the claimed names are counted in a \<open>uint16_t\<close>.\<close>

definition count_claims :: "Name list \<Rightarrow> 16 word" where
  "count_claims ns = fold (\<lambda>n c. if claim n then c + 1 else c) ns 0"

text \<open>Lines 589-592: the ids of the claimed names, by position.\<close>

definition put_claimed_ids :: "(32 word \<times> string) list \<Rightarrow> Name list \<Rightarrow> Buffer \<Rightarrow> Buffer" where
  "put_claimed_ids nms ns b =
     fold (\<lambda>i b. if claim (ns ! i) then to_wire_u32 (fst (nms ! i)) b else b) [0..<length nms] b"

text \<open>
  \<open>Server::Pvt::onSearch(msg)\<close>, lines 542-604. The result is the server afterwards, the
  log, and the datagram handed to \<open>msg.reply\<close>, if any. \<open>_to_wire<12>\<close> copies the 12
  bytes of the GUID. The header is written through a \<open>FixedBuf\<close> over the first 8
  bytes of the same vector.
\<close>

definition onSearch :: "Search \<Rightarrow> 'a PvtIO_scheme \<Rightarrow> 'a PvtIO_scheme \<times> io_log list \<times> byte list option" where
  "onSearch msg pvt =
     (let ns0 = map (\<lambda>(i, n). \<lparr>name_of = n, claim = False\<rparr>) (names msg);
          (ns, lg) = run_sources (sources pvt) (ns0, []);
          pvt = pvt\<lparr>searchOp_names := ns\<rparr>;
          nreply = count_claims ns
      in if nreply = 0 \<and> \<not> mustReply msg then (pvt, lg, None)
         else
           (let M = VectorOutBuf True (searchReply pvt);
                M = skip 8 M;
                M = put_bytes (take 12 (guid (effective pvt))) M;
                M = to_wire_u32 (searchID msg) M;
                M = to_wire_SockAddr_any M;
                M = to_wire_u16 (tcp_port (effective pvt)) M;
                M = to_wire_string (str ''tcp'') M;
                M = to_wire_u8 (if nreply \<noteq> 0 then 1 else 0) M;
                M = to_wire_u16 nreply M;
                M = put_claimed_ids (names msg) ns M;
                pktlen = pos M;
                H = FixedBuf True (take 8 (mem M));
                H = to_wire_Header \<lparr>cmd = CMD_SEARCH_RESPONSE, flags = pva_flags_Server,
                                     len = of_nat (pktlen - 8)\<rparr> H;
                vec = mem H @ drop 8 (mem M);
                pvt = pvt\<lparr>searchReply := vec\<rparr>
            in if \<not> good M \<or> \<not> good H then (pvt, lg @ [SearchBufferLogicError], None)
               else (pvt, lg, Some (take pktlen vec))))"

text \<open>
  \<open>sendto(sock, beaconMsg.data(), pktlen, ...)\<close> reads \<open>pktlen\<close> bytes starting at the
  vector's first byte. Inside the vector that is a prefix of it; a length that is
  negative or larger than the vector reads memory that is not the message, which is
  \<open>None\<close> here.
\<close>

definition sendto_payload :: "byte list \<Rightarrow> int \<Rightarrow> byte list option" where
  "sendto_payload vec n = (if 0 \<le> n \<and> n \<le> int (length vec) then Some (take (nat n) vec) else None)"

text \<open>
  \<open>Server::Pvt::doBeacons\<close>, lines 606-646. The body is written into \<open>beaconMsg\<close>.
  Line 622 subtracts \<open>searchReply.data()\<close> from the cursor of \<open>M\<close>, and line 625 places
  the header buffer \<open>H\<close> over \<open>searchReply.data()\<close>; both are modelled as written. The
  result is the server afterwards and, for each destination, what \<open>sendto\<close> is given
  to transmit; \<open>Inl\<close> is the failed assertion of line 628.
\<close>

datatype assert_failed = AssertFailed

definition doBeacons :: "'a PvtIO_scheme \<Rightarrow> assert_failed + ('a PvtIO_scheme \<times> (string \<times> byte list option) list)" where
  "doBeacons pvt =
     (let M = VectorOutBuf True (beaconMsg pvt);
          M = skip 8 M;
          M = put_bytes (take 12 (guid (effective pvt))) M;
          M = skip 4 M;
          M = to_wire_SockAddr_any M;
          M = to_wire_u16 (tcp_port (effective pvt)) M;
          M = to_wire_string (str ''tcp'') M;
          M = to_wire_u8 0xFF M;
          pktlen = (beaconMsg_data pvt + int (pos M)) - searchReply_data pvt;
          H = FixedBuf True (take 8 (searchReply pvt));
          H = to_wire_Header \<lparr>cmd = CMD_BEACON, flags = pva_flags_Server,
                               len = of_int (pktlen - 8)\<rparr> H;
          pvt = pvt\<lparr>beaconMsg := mem M, searchReply := mem H @ drop 8 (searchReply pvt)\<rparr>
      in if \<not> (good M \<and> good H) then Inl AssertFailed
         else Inr (pvt, map (\<lambda>dest. (dest, sendto_payload (beaconMsg pvt) pktlen)) (beaconDest pvt)))"

subsection \<open>What a search reply and a beacon are to contain\<close>

text \<open>
  The statements below speak about the specification's reply layout (section 4.4.3):
  which positions the sources claim, the ids of the claimed names in the order of the
  request, the body of the reply and the 8 header bytes in front of it.
\<close>

definition claimed_by :: "registry \<Rightarrow> string list \<Rightarrow> nat \<Rightarrow> bool" where
  "claimed_by r nms i = (\<exists>(k, s) \<in> set r. fst (s nms) i)"

definition claimed_ids :: "registry \<Rightarrow> (32 word \<times> string) list \<Rightarrow> 32 word list" where
  "claimed_ids r nms =
     map (\<lambda>i. fst (nms ! i)) (filter (claimed_by r (map snd nms)) [0..<length nms])"

definition search_reply_body :: "Config \<Rightarrow> 32 word \<Rightarrow> 32 word list \<Rightarrow> byte list" where
  "search_reply_body conf sid ids =
     guid conf @ wire_bytes True 4 sid @ sockaddr_any_wire @ wire_bytes True 2 (tcp_port conf)
       @ [3] @ str ''tcp'' @ [if ids = [] then 0 else 1]
       @ wire_bytes True 2 (of_nat (length ids) :: 16 word)
       @ concat (map (wire_bytes True 4) ids)"

definition header_bytes :: "byte \<Rightarrow> nat \<Rightarrow> byte list" where
  "header_bytes c n =
     [0xCA, pva_version_server, pva_flags_Server OR pva_flags_MSB, c]
       @ wire_bytes True 4 (of_nat n :: 32 word)"

text \<open>
  A growable output buffer in good state, and the bytes written so far.
\<close>

definition vec_ok :: "Buffer \<Rightarrow> bool" where
  "vec_ok b = (\<not> err b \<and> growable b \<and> be b \<and> pos b \<le> length (mem b))"

definition written :: "Buffer \<Rightarrow> byte list" where
  "written b = take (pos b) (mem b)"

subsection \<open>A server to run the operations on\<close>

text \<open>
  A server as its constructor leaves it: a 128 byte beacon vector and a 65536 byte search
  reply vector, both zeroed, in separate heap blocks; the ``server'' source and one
  source that claims the name yyy; one beacon destination.
\<close>

definition example_config :: Config where
  "example_config = \<lparr>interfaces = [''0.0.0.0''], beaconDestinations = [''10.0.0.255''],
      auto_beacon = False, tcp_port = 5075, udp_port = 5076,
      guid = [1, 2, 3, 4, 5, 6, 7, 8, 9, 10, 11, 12]\<rparr>"

definition example_source :: Source where
  "example_source ns = (\<lambda>i. i < length ns \<and> ns ! i = ''yyy'', False)"

definition example_pvt :: PvtIO where
  "example_pvt = \<lparr>sources = [((-1, ''server''), (\<lambda>ns. (\<lambda>i. False, False))), ((0, ''test''), example_source)],
      effective = example_config, searchOp_names = [],
      searchReply = replicate 65536 0, searchReply_data = 0x20000,
      beaconMsg = replicate 128 0, beaconMsg_data = 0x1000,
      beaconDest = [''10.0.0.255'']\<rparr>"

definition example_search :: Search where
  "example_search = \<lparr>src = ''10.0.0.7:40000'', searchID = 0x11223344, mustReply = False,
      names = [(1, ''xxx''), (2, ''yyy'')]\<rparr>"

section \<open>Type codec (src/src/dataencode.cpp, lines 30-206)\<close>

subsection \<open>TypeCode and FieldDesc\<close>

text \<open>
  Modelled from the spec: the enumeration \<open>TypeCode::code_t\<close> and \<open>scalarOf()\<close> are
  declared in pvxs/data.h, which is not among the sources. Section 3.1 of the
  specification names the codes, fixes \<open>Null\<close> as 0xFF and the bit 0x10 as the mark of
  a fixed-length array, and describes \<open>scalarOf\<close> as the projection of an array code to
  its element code. A \<open>TypeCode\<close> is the byte it carries on the wire; the numeric values
  of the named codes are those of the pvAccess type encoding, in which bit 0x08 marks an
  array.
\<close>

type_synonym TypeCode = byte

definition TypeCode_Bool :: TypeCode where "TypeCode_Bool = 0x00"
definition TypeCode_BoolA :: TypeCode where "TypeCode_BoolA = 0x08"
definition TypeCode_Int8 :: TypeCode where "TypeCode_Int8 = 0x20"
definition TypeCode_Int16 :: TypeCode where "TypeCode_Int16 = 0x21"
definition TypeCode_Int32 :: TypeCode where "TypeCode_Int32 = 0x22"
definition TypeCode_Int64 :: TypeCode where "TypeCode_Int64 = 0x23"
definition TypeCode_UInt8 :: TypeCode where "TypeCode_UInt8 = 0x24"
definition TypeCode_UInt16 :: TypeCode where "TypeCode_UInt16 = 0x25"
definition TypeCode_UInt32 :: TypeCode where "TypeCode_UInt32 = 0x26"
definition TypeCode_UInt64 :: TypeCode where "TypeCode_UInt64 = 0x27"
definition TypeCode_Int8A :: TypeCode where "TypeCode_Int8A = 0x28"
definition TypeCode_Int16A :: TypeCode where "TypeCode_Int16A = 0x29"
definition TypeCode_Int32A :: TypeCode where "TypeCode_Int32A = 0x2A"
definition TypeCode_Int64A :: TypeCode where "TypeCode_Int64A = 0x2B"
definition TypeCode_UInt8A :: TypeCode where "TypeCode_UInt8A = 0x2C"
definition TypeCode_UInt16A :: TypeCode where "TypeCode_UInt16A = 0x2D"
definition TypeCode_UInt32A :: TypeCode where "TypeCode_UInt32A = 0x2E"
definition TypeCode_UInt64A :: TypeCode where "TypeCode_UInt64A = 0x2F"
definition TypeCode_Float32 :: TypeCode where "TypeCode_Float32 = 0x42"
definition TypeCode_Float64 :: TypeCode where "TypeCode_Float64 = 0x43"
definition TypeCode_Float32A :: TypeCode where "TypeCode_Float32A = 0x4A"
definition TypeCode_Float64A :: TypeCode where "TypeCode_Float64A = 0x4B"
definition TypeCode_String :: TypeCode where "TypeCode_String = 0x60"
definition TypeCode_StringA :: TypeCode where "TypeCode_StringA = 0x68"
definition TypeCode_Struct :: TypeCode where "TypeCode_Struct = 0x80"
definition TypeCode_Union :: TypeCode where "TypeCode_Union = 0x81"
definition TypeCode_Any :: TypeCode where "TypeCode_Any = 0x82"
definition TypeCode_StructA :: TypeCode where "TypeCode_StructA = 0x88"
definition TypeCode_UnionA :: TypeCode where "TypeCode_UnionA = 0x89"
definition TypeCode_AnyA :: TypeCode where "TypeCode_AnyA = 0x8A"
definition TypeCode_Null :: TypeCode where "TypeCode_Null = 0xFF"

lemmas TypeCode_defs =
  TypeCode_Bool_def TypeCode_BoolA_def TypeCode_Int8_def TypeCode_Int16_def TypeCode_Int32_def
  TypeCode_Int64_def TypeCode_UInt8_def TypeCode_UInt16_def TypeCode_UInt32_def TypeCode_UInt64_def
  TypeCode_Int8A_def TypeCode_Int16A_def TypeCode_Int32A_def TypeCode_Int64A_def
  TypeCode_UInt8A_def TypeCode_UInt16A_def TypeCode_UInt32A_def TypeCode_UInt64A_def
  TypeCode_Float32_def TypeCode_Float64_def TypeCode_Float32A_def TypeCode_Float64A_def
  TypeCode_String_def TypeCode_StringA_def TypeCode_Struct_def TypeCode_Union_def TypeCode_Any_def
  TypeCode_StructA_def TypeCode_UnionA_def TypeCode_AnyA_def TypeCode_Null_def

definition scalarOf :: "TypeCode \<Rightarrow> TypeCode" where
  "scalarOf c = c AND NOT 0x08"

text \<open>
  Modelled from the spec: \<open>FieldDesc\<close> is declared in dataimpl.h, which is not among
  the sources; section 3.2 lists its attributes, which are the members that
  dataencode.cpp uses (the member \<open>id\<close> is \<open>id'\<close> here, \<open>id\<close> being the identity
  function of HOL). \<open>mlookup\<close> is a
  \<open>std::map<std::string, size_t>\<close>; it is held as an association list with one entry
  per key, read with \<open>map_of\<close> and written with \<open>map_set\<close> (the \<open>operator[]\<close>
  assignment: overwrite the entry of the key or add one). Relative indices and counts are
  \<open>size_t\<close> values used as positions in a vector; they are natural numbers here.
\<close>

record FieldDesc =
  code :: TypeCode
  id' :: std_string
  miter :: "(std_string \<times> nat) list"
  mlookup :: "(std_string \<times> nat) list"
  hash :: "64 word"
  offset :: nat
  next_offset :: nat
  num_index :: nat

fun map_set :: "'k \<Rightarrow> 'v \<Rightarrow> ('k \<times> 'v) list \<Rightarrow> ('k \<times> 'v) list" where
  "map_set k v [] = [(k, v)]"
| "map_set k v ((k', v') # m) = (if k' = k then (k, v) # m else (k', v') # map_set k v m)"

text \<open>The node that \<open>descs.emplace_back()\<close> appends.\<close>

definition FieldDesc_default :: FieldDesc where
  "FieldDesc_default = \<lparr>code = TypeCode_Null, id' = [], miter = [], mlookup = [], hash = 0,
      offset = 0, next_offset = 0, num_index = 0\<rparr>"

subsection \<open>Decoding a type description\<close>

text \<open>
  \<open>TypeDeserContext\<close> refers to the vector of nodes being built and to the connection's
  introspection cache, a \<open>std::map<uint16_t, std::vector<FieldDesc>>\<close>. The state of
  a decode is the buffer with both. Two ways out of the function are not a return: a
  read past the end of \<open>descs\<close> (line 128, when the element type of an array decoded
  to no node) and the \<open>std::length_error\<close> of \<open>reserve\<close> for the null size, which
  is above the \<open>max_size()\<close> of a vector. Memory is not bounded otherwise.
\<close>

type_synonym TypeStore = "16 word \<rightharpoonup> FieldDesc list"
type_synonym type_ctx = "Buffer \<times> FieldDesc list \<times> TypeStore"

datatype decode_abort = ReadPastEnd | LengthError

text \<open>
  Lines 148-177, the loop over the members of a Struct or Union node at \<open>index\<close>. The
  recursive call of line 152 is the parameter \<open>dec\<close>; \<open>hs\<close> is \<open>std::hash<std::string>\<close>;
  \<open>name\<close> is the variable declared before the loop. The flag of the result tells
  whether the loop ran to its end (\<open>True\<close>) or left the function from line 155.
\<close>

fun from_wire_members ::
  "(type_ctx \<Rightarrow> decode_abort + type_ctx) \<Rightarrow> (std_string \<Rightarrow> 64 word) \<Rightarrow> TypeCode \<Rightarrow> nat \<Rightarrow> nat
     \<Rightarrow> std_string \<Rightarrow> type_ctx \<Rightarrow> decode_abort + (bool \<times> type_ctx)" where
  "from_wire_members dec hs c index 0 name st = Inr (True, st)"
| "from_wire_members dec hs c index (Suc n) name (buf, descs, cache) =
     (let cindex = length descs;
          (name, buf) = from_wire_string name buf
      in case dec (buf, descs, cache) of
           Inl e \<Rightarrow> Inl e
         | Inr (buf, descs, cache) \<Rightarrow>
             if \<not> good buf \<or> cindex \<ge> length descs then Inr (False, (fault buf, descs, cache))
             else
               (let fld = descs ! index;
                    cfld = descs ! cindex;
                    fld = fld\<lparr>hash := hash fld XOR (hs name XOR hash cfld)\<rparr>;
                    fld = fld\<lparr>miter := miter fld @ [(name, cindex - index)]\<rparr>;
                    fld = fld\<lparr>mlookup := map_set name (cindex - index) (mlookup fld)\<rparr>;
                    name = name @ [0x2E];
                    fld = (if c = TypeCode_Struct \<and> c = code cfld
                           then fld\<lparr>mlookup := fold (\<lambda>pair m. map_set (name @ fst pair) (cindex + snd pair) m)
                                                  (mlookup cfld) (mlookup fld)\<rparr>
                           else fld)
                in from_wire_members dec hs c index n name (buf, descs[index := fld], cache)))"

lemma from_wire_members_cong [fundef_cong]:
  assumes "\<And>s. dec s = dec' s" "hs = hs'" "c = c'" "index = index'" "n = n'" "name = name'" "st = st'"
  shows "from_wire_members dec hs c index n name st = from_wire_members dec' hs' c' index' n' name' st'"
proof -
  have "dec = dec'" using assms(1) by (simp add: fun_eq_iff)
  with assms show ?thesis by simp
qed

text \<open>
  \<open>from_wire(buf, ctxt, depth)\<close>, lines 56-206. The type byte is read into a
  default-constructed \<open>TypeCode\<close>, taken to be \<open>Null\<close>; the variable keeps that
  value only when the read fails, and the buffer is faulted then.
\<close>

function from_wire ::
  "(std_string \<Rightarrow> 64 word) \<Rightarrow> nat \<Rightarrow> type_ctx \<Rightarrow> decode_abort + type_ctx" where
  "from_wire hs depth (buf, descs, cache) =
     (if \<not> good buf \<or> depth > 20 then Inr (fault buf, descs, cache)
      else
        (let (c, buf) = from_wire_u8 TypeCode_Null buf;
             index = length descs
         in if c = TypeCode_Null then Inr (buf, descs, cache)
            else if c = 0xFD then
              (let (key, buf) = from_wire_u16 0 buf
               in case from_wire hs (depth + 1) (buf, descs, cache) of
                    Inl e \<Rightarrow> Inl e
                  | Inr (buf, descs, cache) \<Rightarrow>
                      if \<not> good buf \<or> index = length descs then Inr (fault buf, descs, cache)
                      else Inr (buf, descs, cache(key \<mapsto> drop index descs)))
            else if c = 0xFE then
              (let (key, buf) = from_wire_u16 0 buf;
                   it = cache key;
                   buf = (if it = None then fault buf else buf)
               in if \<not> good buf \<or> the it = [] then Inr (fault buf, descs, cache)
                  else Inr (buf, take index descs @ the it, cache))
            else if c \<noteq> 0xFF \<and> c AND 0x10 \<noteq> 0 then Inr (fault buf, descs, cache)
            else
              (let descs = descs @ [FieldDesc_default\<lparr>code := c, hash := ucast c\<rparr>]
               in if c = TypeCode_StructA \<or> c = TypeCode_UnionA then
                    (case from_wire hs (depth + 1) (buf, descs, cache) of
                       Inl e \<Rightarrow> Inl e
                     | Inr (buf, descs, cache) \<Rightarrow>
                         if \<not> good buf \<or> length descs = index then Inr (fault buf, descs, cache)
                         else if length descs \<le> index + 1 then Inl ReadPastEnd
                         else if code (descs ! (index + 1)) \<noteq> scalarOf c then Inr (fault buf, descs, cache)
                         else Inr (buf, descs[index := (descs ! index)\<lparr>num_index := length descs - index\<rparr>], cache))
                  else if c = TypeCode_Struct \<or> c = TypeCode_Union then
                    (let (i, buf) = from_wire_string (id' (last descs)) buf;
                         descs = descs[index := (descs ! index)\<lparr>id' := i\<rparr>];
                         (nfld, buf) = from_wire_Size 0 buf
                     in if nfld = size_null then Inl LengthError
                        else
                          (let descs = descs[index := (descs ! index)\<lparr>hash := hash (descs ! index) XOR hs (id' (descs ! index))\<rparr>]
                           in case from_wire_members (\<lambda>s. from_wire hs (depth + 1) s) hs c index (unat nfld) [] (buf, descs, cache) of
                                Inl e \<Rightarrow> Inl e
                              | Inr (False, st) \<Rightarrow> Inr st
                              | Inr (True, (buf, descs, cache)) \<Rightarrow>
                                  Inr (buf, descs[index := (descs ! index)\<lparr>num_index := length descs - index\<rparr>], cache)))
                  else
                    (let s = scalarOf c;
                         buf = (if s = TypeCode_Bool \<or> s = TypeCode_Int8 \<or> s = TypeCode_Int16
                                   \<or> s = TypeCode_Int32 \<or> s = TypeCode_Int64 \<or> s = TypeCode_UInt8
                                   \<or> s = TypeCode_UInt16 \<or> s = TypeCode_UInt32 \<or> s = TypeCode_UInt64
                                   \<or> s = TypeCode_Float32 \<or> s = TypeCode_Float64 \<or> s = TypeCode_String
                                   \<or> s = TypeCode_Any
                                then buf else fault buf)
                     in Inr (buf, descs[index := (descs ! index)\<lparr>num_index := length descs - index\<rparr>], cache)))))"
  by pat_completeness auto
termination
  by (relation "measure (\<lambda>(hs, depth, st). 21 - depth)") auto

declare from_wire.simps [simp del]

text \<open>
  A type stream for the flattening of nested structures: structure (root) with member b,
  a structure with member c, a structure with member x of type Int32.
\<close>

definition nested_struct_stream :: "byte list" where
  "nested_struct_stream =
     [TypeCode_Struct, 0, 1] @ [1] @ str ''b'' @
     [TypeCode_Struct, 0, 1] @ [1] @ str ''c'' @
     [TypeCode_Struct, 0, 1] @ [1] @ str ''x'' @
     [TypeCode_Int32]"

section \<open>Value codec (src/src/dataencode.cpp, lines 208-675)\<close>

subsection \<open>Values and their storage\<close>

text \<open>
  Modelled from the spec: \<open>FieldStorage\<close>, \<open>StructTop\<close> and \<open>Value\<close> are declared
  in dataimpl.h and pvxs/data.h, \<open>shared_array\<close> in pvxs/sharedArray.h, none of them
  among the sources; section 3.3 gives the storage categories, and the members are those
  that dataencode.cpp uses. \<open>FieldStorage\<close> is a tagged union: the \<open>StoreType\<close> tag
  is the constructor, the member read by \<open>as<T>()\<close> its argument. Integers are the 64-bit
  cells of the source; a \<open>double\<close> is kept as its 64 bits. A \<open>Value\<close> is either null
  or a pair of pointers: \<open>Value::Helper::desc\<close> points into a vector of nodes (the vector
  and a position in it) and \<open>Value::Helper::store\<close> points to a cell of the
  \<open>members\<close> vector of a \<open>StructTop\<close> (that vector, the \<open>member_indicies\<close> of the
  same top, and a position). Two \<open>FieldDesc\<close> pointers are equal when they are the same
  position of the same vector.

  \<open>shared_array<const void>\<close> is the type-erased array of sharedArray.h; it is kept
  as the list of its elements at the element width it was created with. \<open>castTo\<close> to
  an element type of that width gives the elements; the model does not reinterpret
  memory at another width and leaves with \<open>CastMismatch\<close> there.
\<close>

datatype FieldStorage =
    Store_Null
  | Store_Real "64 word"
  | Store_Integer "64 word"
  | Store_UInteger "64 word"
  | Store_String std_string
  | Store_Compound Value
  | Store_Array shared_array
and Value =
    Value_null
  | Value_at "FieldDesc list" nat "FieldStorage list" "nat list" nat
and shared_array =
    Arr_empty
  | Arr_bool "bool list"
  | Arr_u8 "8 word list"
  | Arr_u16 "16 word list"
  | Arr_u32 "32 word list"
  | Arr_u64 "64 word list"
  | Arr_string "std_string list"
  | Arr_Value "Value list"

text \<open>
  What this file takes from elsewhere, as parameters: whether assertions are compiled out
  (\<open>NDEBUG\<close>), \<open>std::hash<std::string>\<close>, the conversions between \<open>double\<close> and
  \<open>float\<close> on their bit patterns, \<open>FieldDesc_calculate_offset\<close> on a node vector,
  and \<open>Value::Helper::build\<close>, which makes a fresh Value for the node at a position of a
  node vector.
\<close>

record codec_env =
  NDEBUG :: bool
  std_hash :: "std_string \<Rightarrow> 64 word"
  double_to_float :: "64 word \<Rightarrow> 32 word"
  float_to_double :: "32 word \<Rightarrow> 64 word"
  FieldDesc_calculate_offset :: "FieldDesc list \<Rightarrow> FieldDesc list"
  build :: "FieldDesc list \<Rightarrow> nat \<Rightarrow> Value"

datatype codec_abort =
    AssertionFailed
  | UnionNonMember
  | BadPointer
  | CastMismatch
  | BadAlloc
  | TypeAbort decode_abort

text \<open>
  The recursion of the value codec follows the nesting of Values, which the source does
  not bound. The functions below take the number of nested calls they may still make;
  \<open>None\<close> is a call that did not return within it. A returning call is \<open>Some\<close> of a
  result or of the way the function was left other than by returning.
\<close>

type_synonym 'a res = "(codec_abort + 'a) option"

definition returns :: "'a \<Rightarrow> 'a res" where
  "returns x = Some (Inr x)"

definition aborts :: "codec_abort \<Rightarrow> 'a res" where
  "aborts e = Some (Inl e)"

definition bind_res :: "'a res \<Rightarrow> ('a \<Rightarrow> 'b res) \<Rightarrow> 'b res" where
  "bind_res r f = (case r of None \<Rightarrow> None | Some (Inl e) \<Rightarrow> Some (Inl e) | Some (Inr x) \<Rightarrow> f x)"

definition castTo_bool :: "shared_array \<Rightarrow> codec_abort + bool list" where
  "castTo_bool a = (case a of Arr_empty \<Rightarrow> Inr [] | Arr_bool xs \<Rightarrow> Inr xs | _ \<Rightarrow> Inl CastMismatch)"

definition castTo_u8 :: "shared_array \<Rightarrow> codec_abort + 8 word list" where
  "castTo_u8 a = (case a of Arr_empty \<Rightarrow> Inr [] | Arr_u8 xs \<Rightarrow> Inr xs | _ \<Rightarrow> Inl CastMismatch)"

definition castTo_u16 :: "shared_array \<Rightarrow> codec_abort + 16 word list" where
  "castTo_u16 a = (case a of Arr_empty \<Rightarrow> Inr [] | Arr_u16 xs \<Rightarrow> Inr xs | _ \<Rightarrow> Inl CastMismatch)"

definition castTo_u32 :: "shared_array \<Rightarrow> codec_abort + 32 word list" where
  "castTo_u32 a = (case a of Arr_empty \<Rightarrow> Inr [] | Arr_u32 xs \<Rightarrow> Inr xs | _ \<Rightarrow> Inl CastMismatch)"

definition castTo_u64 :: "shared_array \<Rightarrow> codec_abort + 64 word list" where
  "castTo_u64 a = (case a of Arr_empty \<Rightarrow> Inr [] | Arr_u64 xs \<Rightarrow> Inr xs | _ \<Rightarrow> Inl CastMismatch)"

definition castTo_string :: "shared_array \<Rightarrow> codec_abort + std_string list" where
  "castTo_string a = (case a of Arr_empty \<Rightarrow> Inr [] | Arr_string xs \<Rightarrow> Inr xs | _ \<Rightarrow> Inl CastMismatch)"

definition castTo_Value :: "shared_array \<Rightarrow> codec_abort + Value list" where
  "castTo_Value a = (case a of Arr_empty \<Rightarrow> Inr [] | Arr_Value xs \<Rightarrow> Inr xs | _ \<Rightarrow> Inl CastMismatch)"

subsection \<open>Encoding a type description\<close>

text \<open>
  \<open>to_wire(buf, const FieldDesc* cur)\<close>, lines 30-54, for the node at position \<open>cur\<close>
  of \<open>descs\<close>. The recursion follows the relative indices of the nodes.
\<close>

fun to_wire_desc_members ::
  "(Buffer \<Rightarrow> nat \<Rightarrow> Buffer res) \<Rightarrow> nat \<Rightarrow> (std_string \<times> nat) list \<Rightarrow> Buffer \<Rightarrow> Buffer res" where
  "to_wire_desc_members enc cur [] buf = returns buf"
| "to_wire_desc_members enc cur (pair # rest) buf =
     bind_res (enc (to_wire_string (fst pair) buf) (cur + snd pair)) (to_wire_desc_members enc cur rest)"

primrec to_wire_desc :: "nat \<Rightarrow> FieldDesc list \<Rightarrow> Buffer \<Rightarrow> nat \<Rightarrow> Buffer res" where
  "to_wire_desc 0 descs buf cur = None"
| "to_wire_desc (Suc fuel) descs buf cur =
     (if length descs \<le> cur then aborts BadPointer
      else
        (let c = code (descs ! cur);
             buf = to_wire_u8 c buf
         in if c = TypeCode_StructA \<or> c = TypeCode_UnionA then to_wire_desc fuel descs buf (cur + 1)
            else if c = TypeCode_Struct \<or> c = TypeCode_Union then
              (let buf = to_wire_string (id' (descs ! cur)) buf;
                   buf = to_wire_Size (of_nat (length (miter (descs ! cur)))) buf
               in to_wire_desc_members (to_wire_desc fuel descs) cur (miter (descs ! cur)) buf)
            else returns buf))"

subsection \<open>Encoding a value\<close>

text \<open>Lines 405-406: \<open>assert(false); buf.fault();\<close>.\<close>

definition assert_false :: "codec_env \<Rightarrow> Buffer \<Rightarrow> Buffer res" where
  "assert_false env buf = (if NDEBUG env then returns (fault buf) else aborts AssertionFailed)"

text \<open>
  The array template of lines 209-217: the size, then each element converted to \<open>C\<close>
  and written by \<open>put\<close>.
\<close>

definition to_wire_array :: "('e \<Rightarrow> Buffer \<Rightarrow> Buffer) \<Rightarrow> 'e list \<Rightarrow> Buffer \<Rightarrow> Buffer" where
  "to_wire_array put arr buf = fold put arr (to_wire_Size (of_nat (length arr)) buf)"

text \<open>
  The element loops of lines 359-367, 373-381 and 387-396. \<open>full\<close> is \<open>to_wire_full\<close>,
  \<open>tdesc\<close> the type encoder.
\<close>

fun to_wire_StructA_elems ::
  "codec_env \<Rightarrow> (Buffer \<Rightarrow> Value \<Rightarrow> Buffer res) \<Rightarrow> FieldDesc list \<Rightarrow> nat \<Rightarrow> Value list \<Rightarrow> Buffer \<Rightarrow> Buffer res" where
  "to_wire_StructA_elems env full descs desc [] buf = returns buf"
| "to_wire_StructA_elems env full descs desc (elem # arr) buf =
     (case elem of
        Value_null \<Rightarrow> to_wire_StructA_elems env full descs desc arr (to_wire_u8 0 buf)
      | Value_at ds di ms mi si \<Rightarrow>
          (let buf = to_wire_u8 1 buf
           in if \<not> NDEBUG env \<and> \<not> (ds = descs \<and> di = desc + 1) then aborts AssertionFailed
              else bind_res (full buf elem) (to_wire_StructA_elems env full descs desc arr)))"

fun to_wire_UnionA_elems :: "(Buffer \<Rightarrow> Value \<Rightarrow> Buffer res) \<Rightarrow> Value list \<Rightarrow> Buffer \<Rightarrow> Buffer res" where
  "to_wire_UnionA_elems full [] buf = returns buf"
| "to_wire_UnionA_elems full (elem # arr) buf =
     (case elem of
        Value_null \<Rightarrow> to_wire_UnionA_elems full arr (to_wire_u8 0 buf)
      | Value_at ds di ms mi si \<Rightarrow>
          bind_res (full (to_wire_u8 1 buf) elem) (to_wire_UnionA_elems full arr))"

fun to_wire_AnyA_elems ::
  "(FieldDesc list \<Rightarrow> Buffer \<Rightarrow> nat \<Rightarrow> Buffer res) \<Rightarrow> (Buffer \<Rightarrow> Value \<Rightarrow> Buffer res) \<Rightarrow> Value list \<Rightarrow> Buffer \<Rightarrow> Buffer res" where
  "to_wire_AnyA_elems tdesc full [] buf = returns buf"
| "to_wire_AnyA_elems tdesc full (elem # arr) buf =
     (case elem of
        Value_null \<Rightarrow> to_wire_AnyA_elems tdesc full arr (to_wire_u8 0 buf)
      | Value_at ds di ms mi si \<Rightarrow>
          bind_res (tdesc ds (to_wire_u8 1 buf) di)
            (\<lambda>buf. bind_res (full buf elem) (to_wire_AnyA_elems tdesc full arr)))"

text \<open>
  Lines 243-248: the cells \<open>desc->offset+1 .. desc->next_offset-1\<close> of a structure, each
  written as a field unless its node is itself a structure. \<open>field\<close> is
  \<open>to_wire_field\<close> on a node position and a cell position of the same top.
\<close>

fun to_wire_struct_members ::
  "(Buffer \<Rightarrow> nat \<Rightarrow> nat \<Rightarrow> Buffer res) \<Rightarrow> FieldDesc list \<Rightarrow> nat \<Rightarrow> nat list \<Rightarrow> nat \<Rightarrow> nat list \<Rightarrow> Buffer \<Rightarrow> Buffer res" where
  "to_wire_struct_members field descs desc mi store [] buf = returns buf"
| "to_wire_struct_members field descs desc mi store (off # offs) buf =
     (if length mi \<le> off \<or> length descs \<le> desc + mi ! off then aborts BadPointer
      else if code (descs ! (desc + mi ! off)) \<noteq> TypeCode_Struct
        then bind_res (field buf (desc + mi ! off) (store + off)) (to_wire_struct_members field descs desc mi store offs)
      else to_wire_struct_members field descs desc mi store offs buf)"

text \<open>Lines 303-310: the position of the member whose node is the node of the sub-Value.\<close>

fun union_index :: "FieldDesc list \<Rightarrow> nat \<Rightarrow> FieldDesc list \<Rightarrow> nat \<Rightarrow> (std_string \<times> nat) list \<Rightarrow> nat" where
  "union_index ds di descs desc [] = 0"
| "union_index ds di descs desc (pair # rest) =
     (if ds = descs \<and> di = desc + snd pair then 0 else Suc (union_index ds di descs desc rest))"

text \<open>
  \<open>to_wire_field(buf, desc, store)\<close>, lines 234-407, with \<open>to_wire_full\<close>, lines 409-414.
  \<open>desc\<close> is a position in \<open>descs\<close>, \<open>store\<close> a position in the members \<open>ms\<close> of a
  top with member indices \<open>mi\<close>. The case labels are those of the source.
\<close>

definition to_wire_full_with ::
  "codec_env \<Rightarrow> (Buffer \<Rightarrow> FieldDesc list \<Rightarrow> nat \<Rightarrow> FieldStorage list \<Rightarrow> nat list \<Rightarrow> nat \<Rightarrow> Buffer res)
     \<Rightarrow> Buffer \<Rightarrow> Value \<Rightarrow> Buffer res" where
  "to_wire_full_with env field buf val =
     (case val of
        Value_null \<Rightarrow> aborts (if NDEBUG env then BadPointer else AssertionFailed)
      | Value_at ds di ms mi si \<Rightarrow> field buf ds di ms mi si)"

definition to_wire_field_body ::
  "codec_env \<Rightarrow> (FieldDesc list \<Rightarrow> Buffer \<Rightarrow> nat \<Rightarrow> Buffer res)
     \<Rightarrow> (Buffer \<Rightarrow> FieldDesc list \<Rightarrow> nat \<Rightarrow> FieldStorage list \<Rightarrow> nat list \<Rightarrow> nat \<Rightarrow> Buffer res)
     \<Rightarrow> Buffer \<Rightarrow> FieldDesc list \<Rightarrow> nat \<Rightarrow> FieldStorage list \<Rightarrow> nat list \<Rightarrow> nat \<Rightarrow> Buffer res" where
  "to_wire_field_body env tdesc field buf descs desc ms mi store =
     (if length descs \<le> desc \<or> length ms \<le> store then aborts BadPointer
      else
        (let c = code (descs ! desc)
         in case ms ! store of
              Store_Null \<Rightarrow>
                if c = TypeCode_Struct
                then to_wire_struct_members (\<lambda>buf d s. field buf descs d ms mi s) descs desc mi store
                       [offset (descs ! desc) + 1 ..< next_offset (descs ! desc)] buf
                else assert_false env buf
            | Store_Real fld \<Rightarrow>
                if c = TypeCode_Float32 then returns (to_wire_u32 (double_to_float env fld) buf)
                else if c = TypeCode_Float64 then returns (to_wire_u64 fld buf)
                else assert_false env buf
            | Store_Integer fld \<Rightarrow>
                if c = TypeCode_Int8 then returns (to_wire_u8 (ucast fld) buf)
                else if c = TypeCode_Int16 then returns (to_wire_u16 (ucast fld) buf)
                else if c = TypeCode_Int32 then returns (to_wire_u32 (ucast fld) buf)
                else if c = TypeCode_Int64 then returns (to_wire_u64 fld buf)
                else assert_false env buf
            | Store_UInteger fld \<Rightarrow>
                if c = TypeCode_Bool then returns (to_wire_u8 (if fld \<noteq> 0 then 1 else 0) buf)
                else if c = TypeCode_UInt8 then returns (to_wire_u8 (ucast fld) buf)
                else if c = TypeCode_UInt16 then returns (to_wire_u16 (ucast fld) buf)
                else if c = TypeCode_UInt32 then returns (to_wire_u32 (ucast fld) buf)
                else if c = TypeCode_UInt64 then returns (to_wire_u64 fld buf)
                else assert_false env buf
            | Store_String fld \<Rightarrow>
                if c = TypeCode_String then returns (to_wire_string fld buf)
                else assert_false env buf
            | Store_Compound fld \<Rightarrow>
                if c = TypeCode_Union then
                  (case fld of
                     Value_null \<Rightarrow> returns (to_wire_Size size_null buf)
                   | Value_at ds di fms fmi fsi \<Rightarrow>
                       (let index = union_index ds di descs desc (miter (descs ! desc))
                        in if index \<ge> length (miter (descs ! desc)) then aborts UnionNonMember
                           else to_wire_full_with env field (to_wire_Size (of_nat index) buf) fld))
                else if c = TypeCode_Any then
                  (case fld of
                     Value_null \<Rightarrow> returns (to_wire_u8 0xFF buf)
                   | Value_at ds di fms fmi fsi \<Rightarrow>
                       bind_res (tdesc ds buf di) (\<lambda>buf. to_wire_full_with env field buf fld))
                else assert_false env buf
            | Store_Array fld \<Rightarrow>
                if c = TypeCode_BoolA then
                  (case castTo_bool fld of Inl e \<Rightarrow> aborts e
                   | Inr arr \<Rightarrow> returns (to_wire_array (\<lambda>x. to_wire_u8 (if x then 1 else 0)) arr buf))
                else if c = TypeCode_Int8 \<or> c = TypeCode_UInt8 then
                  (case castTo_u8 fld of Inl e \<Rightarrow> aborts e | Inr arr \<Rightarrow> returns (to_wire_array to_wire_u8 arr buf))
                else if c = TypeCode_Int16 \<or> c = TypeCode_UInt16 then
                  (case castTo_u16 fld of Inl e \<Rightarrow> aborts e | Inr arr \<Rightarrow> returns (to_wire_array to_wire_u16 arr buf))
                else if c = TypeCode_Int32 \<or> c = TypeCode_UInt32 \<or> c = TypeCode_Float32 then
                  (case castTo_u32 fld of Inl e \<Rightarrow> aborts e | Inr arr \<Rightarrow> returns (to_wire_array to_wire_u32 arr buf))
                else if c = TypeCode_Int64 \<or> c = TypeCode_UInt64 \<or> c = TypeCode_Float64 then
                  (case castTo_u64 fld of Inl e \<Rightarrow> aborts e | Inr arr \<Rightarrow> returns (to_wire_array to_wire_u64 arr buf))
                else if c = TypeCode_StringA then
                  (case castTo_string fld of Inl e \<Rightarrow> aborts e | Inr arr \<Rightarrow> returns (to_wire_array to_wire_string arr buf))
                else if c = TypeCode_StructA then
                  (case castTo_Value fld of Inl e \<Rightarrow> aborts e
                   | Inr arr \<Rightarrow> to_wire_StructA_elems env (to_wire_full_with env field) descs desc arr
                                  (to_wire_Size (of_nat (length arr)) buf))
                else if c = TypeCode_UnionA then
                  (case castTo_Value fld of Inl e \<Rightarrow> aborts e
                   | Inr arr \<Rightarrow> to_wire_UnionA_elems (to_wire_full_with env field) arr
                                  (to_wire_Size (of_nat (length arr)) buf))
                else if c = TypeCode_AnyA then
                  (case castTo_Value fld of Inl e \<Rightarrow> aborts e
                   | Inr arr \<Rightarrow> to_wire_AnyA_elems tdesc (to_wire_full_with env field) arr
                                  (to_wire_Size (of_nat (length arr)) buf))
                else assert_false env buf))"

primrec to_wire_field ::
  "nat \<Rightarrow> codec_env \<Rightarrow> Buffer \<Rightarrow> FieldDesc list \<Rightarrow> nat \<Rightarrow> FieldStorage list \<Rightarrow> nat list \<Rightarrow> nat \<Rightarrow> Buffer res" where
  "to_wire_field 0 env = (\<lambda>buf descs desc ms mi store. None)"
| "to_wire_field (Suc fuel) env =
     to_wire_field_body env (to_wire_desc (Suc fuel)) (to_wire_field fuel env)"

definition to_wire_full :: "nat \<Rightarrow> codec_env \<Rightarrow> Buffer \<Rightarrow> Value \<Rightarrow> Buffer res" where
  "to_wire_full fuel env buf val = to_wire_full_with env (to_wire_field fuel env) buf val"

subsection \<open>Decoding a value\<close>

text \<open>
  The array template of lines 219-230: the size, an array of that many elements, and one
  read per element into the array. The array is a local of the template and is not
  stored to the argument \<open>varr\<close>, so the template only moves the buffer. An array of
  \<open>size_t(-1)\<close> elements cannot be allocated. \<open>get\<close> reads one element. The size
  variable of line 222 has no initialiser; it starts at 0 here, which shows only when the
  read of the size fails.
\<close>

definition from_wire_array :: "(Buffer \<Rightarrow> Buffer) \<Rightarrow> Buffer \<Rightarrow> codec_abort + Buffer" where
  "from_wire_array get buf =
     (let (slen, buf) = from_wire_Size 0 buf
      in if slen = size_null then Inl BadAlloc else Inr ((get ^^ unat slen) buf))"

type_synonym dec_state = "Buffer \<times> TypeStore \<times> FieldStorage list"
type_synonym field_decoder =
  "Buffer \<Rightarrow> TypeStore \<Rightarrow> FieldDesc list \<Rightarrow> nat \<Rightarrow> FieldStorage list \<Rightarrow> nat list \<Rightarrow> nat \<Rightarrow> dec_state res"
type_synonym full_decoder = "Buffer \<Rightarrow> TypeStore \<Rightarrow> Value \<Rightarrow> (Buffer \<times> TypeStore \<times> Value) res"

text \<open>
  \<open>from_wire_full(buf, ctxt, val)\<close>, lines 670-675: the field decoder on the node and the
  cell of the Value, whose storage it changes.
\<close>

definition from_wire_full_with :: "codec_env \<Rightarrow> field_decoder \<Rightarrow> full_decoder" where
  "from_wire_full_with env field buf cache val =
     (case val of
        Value_null \<Rightarrow> aborts (if NDEBUG env then BadPointer else AssertionFailed)
      | Value_at ds di ms mi si \<Rightarrow>
          bind_res (field buf cache ds di ms mi si)
            (\<lambda>(buf, cache, ms). returns (buf, cache, Value_at ds di ms mi si)))"

text \<open>Lines 455-460, the members of a structure.\<close>

fun from_wire_struct_members ::
  "(Buffer \<Rightarrow> TypeStore \<Rightarrow> nat \<Rightarrow> FieldStorage list \<Rightarrow> nat \<Rightarrow> dec_state res) \<Rightarrow> FieldDesc list \<Rightarrow> nat \<Rightarrow> nat list \<Rightarrow> nat
     \<Rightarrow> nat list \<Rightarrow> dec_state \<Rightarrow> dec_state res" where
  "from_wire_struct_members field descs desc mi store [] st = returns st"
| "from_wire_struct_members field descs desc mi store (off # offs) (buf, cache, ms) =
     (if length mi \<le> off \<or> length descs \<le> desc + mi ! off then aborts BadPointer
      else if code (descs ! (desc + mi ! off)) \<noteq> TypeCode_Struct
        then bind_res (field buf cache (desc + mi ! off) ms (store + off))
               (from_wire_struct_members field descs desc mi store offs)
      else from_wire_struct_members field descs desc mi store offs (buf, cache, ms))"

text \<open>
  Lines 589-595, the elements of an array of structures: a presence byte, and for a byte
  other than 0 a fresh element of the node after \<open>desc\<close>, decoded in full. The elements
  read so far are \<open>arr\<close>.
\<close>

fun from_wire_StructA_elems ::
  "codec_env \<Rightarrow> full_decoder \<Rightarrow> FieldDesc list \<Rightarrow> nat \<Rightarrow> nat \<Rightarrow> Buffer \<times> TypeStore \<times> Value list
     \<Rightarrow> (Buffer \<times> TypeStore \<times> Value list) res" where
  "from_wire_StructA_elems env full descs desc 0 st = returns st"
| "from_wire_StructA_elems env full descs desc (Suc n) (buf, cache, arr) =
     (let (present, buf) = from_wire_u8 0 buf
      in if present \<noteq> 0
         then bind_res (full buf cache (build env descs (desc + 1)))
                (\<lambda>(buf, cache, elem). from_wire_StructA_elems env full descs desc n (buf, cache, arr @ [elem]))
         else from_wire_StructA_elems env full descs desc n (buf, cache, arr @ [Value_null]))"

text \<open>
  Lines 606-627, the elements of an array of unions; \<open>cdesc\<close> is the node after
  \<open>desc\<close>. The flag of the result is \<open>False\<close> when the function was left from line 624.
\<close>

fun from_wire_UnionA_elems ::
  "codec_env \<Rightarrow> full_decoder \<Rightarrow> FieldDesc list \<Rightarrow> nat \<Rightarrow> nat \<Rightarrow> Buffer \<times> TypeStore \<times> Value list
     \<Rightarrow> (bool \<times> Buffer \<times> TypeStore \<times> Value list) res" where
  "from_wire_UnionA_elems env full descs cdesc 0 st = returns (True, st)"
| "from_wire_UnionA_elems env full descs cdesc (Suc n) (buf, cache, arr) =
     (let (present, buf) = from_wire_u8 0 buf
      in if present \<noteq> 0
         then
           (let (select, buf) = from_wire_Size 0 buf
            in if select = size_null
               then from_wire_UnionA_elems env full descs cdesc n (buf, cache, arr @ [Value_null])
               else if length descs \<le> cdesc then aborts BadPointer
               else if unat select < length (miter (descs ! cdesc))
               then bind_res (full buf cache (build env descs (cdesc + snd (miter (descs ! cdesc) ! unat select))))
                      (\<lambda>(buf, cache, elem). from_wire_UnionA_elems env full descs cdesc n (buf, cache, arr @ [elem]))
               else returns (False, fault buf, cache, arr))
         else from_wire_UnionA_elems env full descs cdesc n (buf, cache, arr @ [Value_null]))"

text \<open>
  Lines 637-655, the elements of an array of any: for a presence byte other than 0 a type
  description is decoded into a new node vector; the flag of the result is \<open>False\<close> when
  the function was left from line 644.
\<close>

fun from_wire_AnyA_elems ::
  "codec_env \<Rightarrow> full_decoder \<Rightarrow> nat \<Rightarrow> Buffer \<times> TypeStore \<times> Value list
     \<Rightarrow> (bool \<times> Buffer \<times> TypeStore \<times> Value list) res" where
  "from_wire_AnyA_elems env full 0 st = returns (True, st)"
| "from_wire_AnyA_elems env full (Suc n) (buf, cache, arr) =
     (let (present, buf) = from_wire_u8 0 buf
      in if present \<noteq> 0
         then
           (case from_wire (std_hash env) 0 (buf, [], cache) of
              Inl e \<Rightarrow> aborts (TypeAbort e)
            | Inr (buf, descs, cache) \<Rightarrow>
                if \<not> good buf then returns (False, buf, cache, arr)
                else if descs \<noteq> []
                then bind_res (full buf cache (build env (FieldDesc_calculate_offset env descs) 0))
                       (\<lambda>(buf, cache, elem). from_wire_AnyA_elems env full n (buf, cache, arr @ [elem]))
                else from_wire_AnyA_elems env full n (buf, cache, arr @ [Value_null]))
         else from_wire_AnyA_elems env full n (buf, cache, arr @ [Value_null]))"

text \<open>
  \<open>from_wire_field(buf, ctxt, desc, store)\<close>, lines 446-668. The result is the buffer,
  the cache and the members of the top with the cell at \<open>store\<close> assigned. An array
  of \<open>size_t(-1)\<close> Values cannot be allocated. The case labels are those of the source.
\<close>

definition from_wire_field_body :: "codec_env \<Rightarrow> field_decoder \<Rightarrow> field_decoder" where
  "from_wire_field_body env field buf cache descs desc ms mi store =
     (if length descs \<le> desc \<or> length ms \<le> store then aborts BadPointer
      else
        (let c = code (descs ! desc)
         in case ms ! store of
              Store_Null \<Rightarrow>
                if c = TypeCode_Struct
                then from_wire_struct_members (\<lambda>buf cache d ms s. field buf cache descs d ms mi s) descs desc mi store
                       [offset (descs ! desc) + 1 ..< next_offset (descs ! desc)] (buf, cache, ms)
                else returns (fault buf, cache, ms)
            | Store_Real fld \<Rightarrow>
                if c = TypeCode_Float32
                then (let (v, buf) = from_wire_u32 0 buf in returns (buf, cache, ms[store := Store_Real (float_to_double env v)]))
                else if c = TypeCode_Float64
                then (let (v, buf) = from_wire_u64 0 buf in returns (buf, cache, ms[store := Store_Real v]))
                else returns (fault buf, cache, ms)
            | Store_Integer fld \<Rightarrow>
                if c = TypeCode_Int8
                then (let (v, buf) = from_wire_u8 0 buf in returns (buf, cache, ms[store := Store_Integer (scast v)]))
                else if c = TypeCode_Int16
                then (let (v, buf) = from_wire_u16 0 buf in returns (buf, cache, ms[store := Store_Integer (scast v)]))
                else if c = TypeCode_Int32
                then (let (v, buf) = from_wire_u32 0 buf in returns (buf, cache, ms[store := Store_Integer (scast v)]))
                else if c = TypeCode_Int64
                then (let (v, buf) = from_wire_u64 0 buf in returns (buf, cache, ms[store := Store_Integer v]))
                else returns (fault buf, cache, ms)
            | Store_UInteger fld \<Rightarrow>
                if c = TypeCode_Bool
                then (let (v, buf) = from_wire_u8 0 buf
                      in returns (buf, cache, ms[store := Store_UInteger (if 0 \<noteq> v then 1 else 0)]))
                else if c = TypeCode_UInt8
                then (let (v, buf) = from_wire_u8 0 buf in returns (buf, cache, ms[store := Store_UInteger (scast v)]))
                else if c = TypeCode_UInt16
                then (let (v, buf) = from_wire_u16 0 buf in returns (buf, cache, ms[store := Store_UInteger (scast v)]))
                else if c = TypeCode_UInt32
                then (let (v, buf) = from_wire_u32 0 buf in returns (buf, cache, ms[store := Store_UInteger (scast v)]))
                else if c = TypeCode_UInt64
                then (let (v, buf) = from_wire_u64 0 buf in returns (buf, cache, ms[store := Store_UInteger v]))
                else returns (fault buf, cache, ms)
            | Store_String fld \<Rightarrow>
                if c = TypeCode_String
                then (let (v, buf) = from_wire_string fld buf in returns (buf, cache, ms[store := Store_String v]))
                else returns (fault buf, cache, ms)
            | Store_Compound fld \<Rightarrow>
                if c = TypeCode_Union then
                  (let (select, buf) = from_wire_Size 0 buf
                   in if select = size_null then returns (buf, cache, ms[store := Store_Compound Value_null])
                      else if unat select < length (miter (descs ! desc))
                      then bind_res (from_wire_full_with env field buf cache
                                       (build env descs (desc + snd (miter (descs ! desc) ! unat select))))
                             (\<lambda>(buf, cache, v). returns (buf, cache, ms[store := Store_Compound v]))
                      else returns (fault buf, cache, ms))
                else if c = TypeCode_Any then
                  (case from_wire (std_hash env) 0 (buf, [], cache) of
                     Inl e \<Rightarrow> aborts (TypeAbort e)
                   | Inr (buf, ds, cache) \<Rightarrow>
                       if \<not> good buf then returns (buf, cache, ms)
                       else if ds = [] then returns (buf, cache, ms[store := Store_Compound Value_null])
                       else bind_res (from_wire_full_with env field buf cache
                                        (build env (FieldDesc_calculate_offset env ds) 0))
                              (\<lambda>(buf, cache, v). returns (buf, cache, ms[store := Store_Compound v])))
                else returns (fault buf, cache, ms)
            | Store_Array fld \<Rightarrow>
                if c = TypeCode_BoolA then
                  (case from_wire_array (\<lambda>b. snd (from_wire_u8 0 b)) buf of
                     Inl e \<Rightarrow> aborts e | Inr buf \<Rightarrow> returns (buf, cache, ms))
                else if c = TypeCode_Int8 \<or> c = TypeCode_UInt8 then
                  (case from_wire_array (\<lambda>b. snd (from_wire_u8 0 b)) buf of
                     Inl e \<Rightarrow> aborts e | Inr buf \<Rightarrow> returns (buf, cache, ms))
                else if c = TypeCode_Int16 \<or> c = TypeCode_UInt16 then
                  (case from_wire_array (\<lambda>b. snd (from_wire_u16 0 b)) buf of
                     Inl e \<Rightarrow> aborts e | Inr buf \<Rightarrow> returns (buf, cache, ms))
                else if c = TypeCode_Int32 \<or> c = TypeCode_UInt32 \<or> c = TypeCode_Float32 then
                  (case from_wire_array (\<lambda>b. snd (from_wire_u32 0 b)) buf of
                     Inl e \<Rightarrow> aborts e | Inr buf \<Rightarrow> returns (buf, cache, ms))
                else if c = TypeCode_Int64 \<or> c = TypeCode_UInt64 \<or> c = TypeCode_Float64 then
                  (case from_wire_array (\<lambda>b. snd (from_wire_u64 0 b)) buf of
                     Inl e \<Rightarrow> aborts e | Inr buf \<Rightarrow> returns (buf, cache, ms))
                else if c = TypeCode_StringA then
                  (case from_wire_array (\<lambda>b. snd (from_wire_string [] b)) buf of
                     Inl e \<Rightarrow> aborts e | Inr buf \<Rightarrow> returns (buf, cache, ms))
                else if c = TypeCode_StructA then
                  (let (alen, buf) = from_wire_Size 0 buf
                   in if alen = size_null then aborts BadAlloc
                      else bind_res (from_wire_StructA_elems env (from_wire_full_with env field) descs desc (unat alen)
                                       (buf, cache, []))
                             (\<lambda>(buf, cache, arr). returns (buf, cache, ms[store := Store_Array (Arr_Value arr)])))
                else if c = TypeCode_UnionA then
                  (let (alen, buf) = from_wire_Size 0 buf
                   in if alen = size_null then aborts BadAlloc
                      else bind_res (from_wire_UnionA_elems env (from_wire_full_with env field) descs (desc + 1) (unat alen)
                                       (buf, cache, []))
                             (\<lambda>(completed, buf, cache, arr).
                                 if completed then returns (buf, cache, ms[store := Store_Array (Arr_Value arr)])
                                 else returns (buf, cache, ms)))
                else if c = TypeCode_AnyA then
                  (let (alen, buf) = from_wire_Size 0 buf
                   in if alen = size_null then aborts BadAlloc
                      else bind_res (from_wire_AnyA_elems env (from_wire_full_with env field) (unat alen) (buf, cache, []))
                             (\<lambda>(completed, buf, cache, arr).
                                 if completed then returns (buf, cache, ms[store := Store_Array (Arr_Value arr)])
                                 else returns (buf, cache, ms)))
                else returns (fault buf, cache, ms)))"

primrec from_wire_field :: "nat \<Rightarrow> codec_env \<Rightarrow> field_decoder" where
  "from_wire_field 0 env = (\<lambda>buf cache descs desc ms mi store. None)"
| "from_wire_field (Suc fuel) env = from_wire_field_body env (from_wire_field fuel env)"

definition from_wire_full :: "nat \<Rightarrow> codec_env \<Rightarrow> full_decoder" where
  "from_wire_full fuel env = from_wire_full_with env (from_wire_field fuel env)"

subsection \<open>Values to run the codec on\<close>

text \<open>
  Modelled from the spec: \<open>Value::Helper::build\<close> (data.cpp, not among the sources)
  allocates the storage of a Value of a given type: one cell per node, of the storage
  category that section 3.3 gives the node's code, holding zero, the empty string, the
  empty array or the null Value. This model serves the examples, whose types have no
  array of compounds inside a structure, so that the cell of a member is at the distance
  of its node.
\<close>

definition default_storage :: "TypeCode \<Rightarrow> FieldStorage" where
  "default_storage c =
     (if c = TypeCode_Struct then Store_Null
      else if c AND 0x08 \<noteq> 0 then Store_Array Arr_empty
      else if c = TypeCode_Bool \<or> c = TypeCode_UInt8 \<or> c = TypeCode_UInt16 \<or> c = TypeCode_UInt32
              \<or> c = TypeCode_UInt64 then Store_UInteger 0
      else if c = TypeCode_Int8 \<or> c = TypeCode_Int16 \<or> c = TypeCode_Int32 \<or> c = TypeCode_Int64
        then Store_Integer 0
      else if c = TypeCode_Float32 \<or> c = TypeCode_Float64 then Store_Real 0
      else if c = TypeCode_String then Store_String []
      else if c = TypeCode_Union \<or> c = TypeCode_Any then Store_Compound Value_null
      else Store_Null)"

definition build_model :: "FieldDesc list \<Rightarrow> nat \<Rightarrow> Value" where
  "build_model descs i =
     (let n = (if code (descs ! i) = TypeCode_Struct then num_index (descs ! i) else 1)
      in Value_at descs i (map (\<lambda>j. default_storage (code (descs ! (i + j)))) [0..<n]) [0..<n] 0)"

definition leaf :: "TypeCode \<Rightarrow> nat \<Rightarrow> FieldDesc" where
  "leaf c off = FieldDesc_default\<lparr>code := c, hash := ucast c, offset := off, next_offset := off + 1,
                                  num_index := 1\<rparr>"

text \<open>A single unsigned 8-bit field, its value 200, and the fresh Value of the same type.\<close>

definition uint8_descs :: "FieldDesc list" where
  "uint8_descs = [leaf TypeCode_UInt8 0]"

definition uint8_value :: Value where
  "uint8_value = Value_at uint8_descs 0 [Store_UInteger 200] [0] 0"

text \<open>An array of booleans with the elements true, false, true.\<close>

definition boolA_descs :: "FieldDesc list" where
  "boolA_descs = [leaf TypeCode_BoolA 0]"

definition boolA_value :: Value where
  "boolA_value = Value_at boolA_descs 0 [Store_Array (Arr_bool [True, False, True])] [0] 0"

text \<open>An array of 32-bit integers with the elements 1, 2, 3.\<close>

definition int32A_descs :: "FieldDesc list" where
  "int32A_descs = [leaf TypeCode_Int32A 0]"

definition int32A_value :: Value where
  "int32A_value = Value_at int32A_descs 0 [Store_Array (Arr_u32 [1, 2, 3])] [0] 0"

text \<open>An array of structures with one member x of type Int32.\<close>

definition structA_descs :: "FieldDesc list" where
  "structA_descs =
     [FieldDesc_default\<lparr>code := TypeCode_StructA, offset := 0, next_offset := 1, num_index := 3\<rparr>,
      FieldDesc_default\<lparr>code := TypeCode_Struct, miter := [(str ''x'', 1)], mlookup := [(str ''x'', 1)],
                         offset := 0, next_offset := 2, num_index := 2\<rparr>,
      leaf TypeCode_Int32 1]"

text \<open>An array of unions with the members a of type Int32 and b of type String.\<close>

definition unionA_descs :: "FieldDesc list" where
  "unionA_descs =
     [FieldDesc_default\<lparr>code := TypeCode_UnionA, offset := 0, next_offset := 1, num_index := 4\<rparr>,
      FieldDesc_default\<lparr>code := TypeCode_Union, miter := [(str ''a'', 1), (str ''b'', 2)],
                         mlookup := [(str ''a'', 1), (str ''b'', 2)],
                         offset := 0, next_offset := 1, num_index := 3\<rparr>,
      leaf TypeCode_Int32 0,
      leaf TypeCode_String 0]"

text \<open>An array of any.\<close>

definition anyA_descs :: "FieldDesc list" where
  "anyA_descs = [leaf TypeCode_AnyA 0]"


text \<open>
  An environment for the examples: assertions compiled in, the model of \<open>build\<close> above;
  the hash, the float conversions and the offset pass are not reached by the examples.
\<close>

definition example_env :: codec_env where
  "example_env = \<lparr>NDEBUG = False, std_hash = (\<lambda>s. 0), double_to_float = (\<lambda>d. 0),
                   float_to_double = (\<lambda>f. 0), FieldDesc_calculate_offset = (\<lambda>ds. ds),
                   build = build_model\<rparr>"

section \<open>Properties of the buffer primitives\<close>

lemma put_bytes_vec:
  assumes "vec_ok b"
  shows "vec_ok (put_bytes bs b)" and "written (put_bytes bs b) = written b @ bs"
  using assms by (auto simp: vec_ok_def written_def put_bytes_def)

lemma skip_vec:
  assumes "vec_ok b"
  shows "vec_ok (skip n b)"
    and "\<exists>pad. length pad = n \<and> written (skip n b) = written b @ pad"
proof -
  show "vec_ok (skip n b)"
    using assms by (auto simp: vec_ok_def skip_def)
  show "\<exists>pad. length pad = n \<and> written (skip n b) = written b @ pad"
  proof (cases "pos b + n \<le> length (mem b)")
    case True
    then have "written (skip n b) = written b @ take n (drop (pos b) (mem b))"
      using assms by (simp add: vec_ok_def written_def skip_def take_add)
    moreover have "length (take n (drop (pos b) (mem b))) = n"
      using True by simp
    ultimately show ?thesis by blast
  next
    case False
    then have "written (skip n b) = written b @ (drop (pos b) (mem b) @ replicate (pos b + n - length (mem b)) 0)"
      using assms by (simp add: vec_ok_def written_def skip_def)
    moreover have "length (drop (pos b) (mem b) @ replicate (pos b + n - length (mem b)) (0::byte)) = n"
      using False assms by (simp add: vec_ok_def)
    ultimately show ?thesis by blast
  qed
qed

lemma length_le_bytes: "length (le_bytes n w) = n"
  by (simp add: le_bytes_def)

lemma length_wire_bytes: "length (wire_bytes e n w) = n"
  by (simp add: wire_bytes_def length_le_bytes)

lemma to_wire_vec:
  assumes "vec_ok b"
  shows "vec_ok (to_wire_u8 v b) \<and> written (to_wire_u8 v b) = written b @ [v]"
    and "vec_ok (to_wire_u16 v2 b) \<and> written (to_wire_u16 v2 b) = written b @ wire_bytes True 2 v2"
    and "vec_ok (to_wire_u32 v4 b) \<and> written (to_wire_u32 v4 b) = written b @ wire_bytes True 4 v4"
    and "vec_ok (to_wire_SockAddr_any b) \<and> written (to_wire_SockAddr_any b) = written b @ sockaddr_any_wire"
  using assms put_bytes_vec [OF assms]
  by (simp_all add: to_wire_u8_def to_wire_u16_def to_wire_u32_def to_wire_SockAddr_any_def)
     (simp_all add: vec_ok_def)

lemma to_wire_tcp_vec:
  assumes "vec_ok b"
  shows "vec_ok (to_wire_string (str ''tcp'') b) \<and> written (to_wire_string (str ''tcp'') b) = written b @ [3] @ str ''tcp''"
proof -
  have "to_wire_string (str ''tcp'') b = put_bytes (str ''tcp'') (put_bytes [3] b)"
    by (simp add: to_wire_string_def to_wire_Size_def to_wire_u8_def)
  then show ?thesis
    using put_bytes_vec [OF assms, of "[3]"] put_bytes_vec [of "put_bytes [3] b" "str ''tcp''"]
    by simp
qed

lemma wire_bytes_eval:
  "wire_bytes True 2 (w2 :: 16 word) = [ucast (drop_bit 8 w2), ucast w2]"
  "wire_bytes True 4 (w4 :: 32 word) = [ucast (drop_bit 24 w4), ucast (drop_bit 16 w4), ucast (drop_bit 8 w4), ucast w4]"
  by (simp_all add: wire_bytes_def le_bytes_def upt_rec)

lemma put_bytes_inplace:
  assumes "\<not> err b" and "pos b + length bs \<le> length (mem b)"
  shows "\<not> err (put_bytes bs b)" and "pos (put_bytes bs b) = pos b + length bs"
    and "length (mem (put_bytes bs b)) = length (mem b)"
    and "be (put_bytes bs b) = be b"
  using assms by (simp_all add: put_bytes_def)

lemma put_bytes_inplace_take:
  assumes "\<not> err b" and "pos b + length bs \<le> length (mem b)" and "n \<le> pos b"
  shows "take n (mem (put_bytes bs b)) = take n (mem b)"
  using assms by (simp add: put_bytes_def)

lemma skip_inplace:
  assumes "\<not> err b" and "pos b + k \<le> length (mem b)"
  shows "\<not> err (skip k b)" and "pos (skip k b) = pos b + k"
    and "mem (skip k b) = mem b" and "be (skip k b) = be b"
  using assms by (simp_all add: skip_def)

subsection \<open>Reading\<close>

lemma word_of_wire_single: "(word_of_wire e [a] :: byte) = a"
  by (simp add: word_of_wire_def)

lemma get_bytes_split:
  assumes "get_bytes (m + n) b = (Some bs, b')"
  shows "get_bytes m b = (Some (take m bs), b\<lparr>pos := pos b + m\<rparr>)"
    and "get_bytes n (b\<lparr>pos := pos b + m\<rparr>) = (Some (drop m bs), b')"
  using assms
  by (auto simp: get_bytes_def take_add drop_take add.commute split: if_splits)

lemma from_wire_u8_next:
  assumes "get_bytes 1 b = (Some [a], b')"
  shows "from_wire_u8 old b = (a, b')"
  using assms by (simp add: from_wire_u8_def word_of_wire_single)

lemma from_wire_u16_next:
  assumes "get_bytes 2 b = (Some [k1, k2], b')"
  shows "from_wire_u16 old b = (word_of_wire (be b) [k1, k2], b')"
  using assms by (simp add: from_wire_u16_def)

lemma get_bytes_good:
  assumes "get_bytes n b = (Some bs, b')"
  shows "\<not> err b" "\<not> err b'" "be b' = be b" "b' = b\<lparr>pos := pos b + n\<rparr>"
  using assms by (auto simp: get_bytes_def split: if_splits)




section \<open>Properties of the server spine\<close>

subsection \<open>The Source registry\<close>

lemma find_source_None_iff: "find_source k r = None \<longleftrightarrow> k \<notin> fst ` set r"
  by (induction r) (auto split: if_splits)

lemma find_source_Some_mem: "find_source k r = Some s \<Longrightarrow> (k, s) \<in> set r"
  by (induction r) (auto split: if_splits)

lemma erase_source_absent: "find_source k r = None \<Longrightarrow> erase_source k r = r"
  by (induction r) (auto split: if_splits)

lemma erase_source_length:
  "find_source k r = Some s \<Longrightarrow> Suc (length (erase_source k r)) = length r"
  by (induction r) (auto split: if_splits)

lemma find_erase_other: "k' \<noteq> k \<Longrightarrow> find_source k' (erase_source k r) = find_source k' r"
  by (induction r) (auto split: if_splits)

lemma find_erase_same:
  "distinct (map fst r) \<Longrightarrow> find_source k (erase_source k r) = None"
proof (induction r)
  case Nil
  then show ?case by simp
next
  case (Cons e r)
  obtain k' s' where e: "e = (k', s')" by (cases e)
  show ?case
  proof (cases "k' = k")
    case True
    with Cons.prems e have "k \<notin> fst ` set r" by simp
    with True e show ?thesis by (simp add: find_source_None_iff)
  next
    case False
    with Cons e show ?thesis by simp
  qed
qed

lemma erase_source_split:
  "find_source k r = Some s \<Longrightarrow>
   \<exists>xs ys. r = xs @ (k, s) # ys \<and> erase_source k r = xs @ ys \<and> k \<notin> fst ` set xs"
proof (induction r)
  case Nil
  then show ?case by simp
next
  case (Cons e r)
  obtain k' s' where e: "e = (k', s')" by (cases e)
  show ?case
  proof (cases "k' = k")
    case True
    with Cons.prems e have "s' = s" by simp
    with True e have "e # r = [] @ (k, s) # r \<and> erase_source k (e # r) = [] @ r \<and> k \<notin> fst ` set []"
      by simp
    then show ?thesis by blast
  next
    case False
    with Cons.prems e have "find_source k r = Some s" by simp
    from Cons.IH [OF this] obtain xs ys where
      h: "r = xs @ (k, s) # ys" "erase_source k r = xs @ ys" "k \<notin> fst ` set xs" by blast
    from h False e have "e # r = (e # xs) @ (k, s) # ys \<and> erase_source k (e # r) = (e # xs) @ ys
        \<and> k \<notin> fst ` set (e # xs)"
      by auto
    then show ?thesis by blast
  qed
qed

text \<open>
  C9. For a non-null server whose registry holds each key once: when (order, name) is
  not registered, removeSource returns the null pointer and the server is unchanged; when
  it is registered with source src, removeSource returns src, and the registry afterwards
  is the old one with exactly that entry taken out (one entry fewer, the key no longer
  found, every other key found as before).
\<close>

theorem removeSource_spec:
  assumes "registry_ok (sources pvt)"
  shows "(find_source (order, name) (sources pvt) = None \<longrightarrow>
            removeSource name order (Some pvt) = Inr (None, Some pvt))
       \<and> (\<forall>src. find_source (order, name) (sources pvt) = Some src \<longrightarrow>
            (\<exists>pvt'. removeSource name order (Some pvt) = Inr (Some src, Some pvt')
               \<and> (\<exists>xs ys. sources pvt = xs @ ((order, name), src) # ys \<and> sources pvt' = xs @ ys)
               \<and> Suc (length (sources pvt')) = length (sources pvt)
               \<and> find_source (order, name) (sources pvt') = None
               \<and> (\<forall>k. k \<noteq> (order, name) \<longrightarrow>
                     find_source k (sources pvt') = find_source k (sources pvt))))"
proof (intro conjI allI impI)
  assume "find_source (order, name) (sources pvt) = None"
  then show "removeSource name order (Some pvt) = Inr (None, Some pvt)"
    by (simp add: removeSource_def)
next
  fix src
  assume f: "find_source (order, name) (sources pvt) = Some src"
  let ?pvt' = "pvt\<lparr>sources := erase_source (order, name) (sources pvt)\<rparr>"
  have 1: "removeSource name order (Some pvt) = Inr (Some src, Some ?pvt')"
    using f by (simp add: removeSource_def)
  have 2: "\<exists>xs ys. sources pvt = xs @ ((order, name), src) # ys \<and> sources ?pvt' = xs @ ys"
    using erase_source_split [OF f] by auto
  have 3: "Suc (length (sources ?pvt')) = length (sources pvt)"
    using erase_source_length [OF f] by simp
  have 4: "find_source (order, name) (sources ?pvt') = None"
    using assms by (simp add: registry_ok_def find_erase_same)
  have 5: "\<forall>k. k \<noteq> (order, name) \<longrightarrow> find_source k (sources ?pvt') = find_source k (sources pvt)"
    by (simp add: find_erase_other)
  from 1 2 3 4 5
  show "\<exists>pvt'. removeSource name order (Some pvt) = Inr (Some src, Some pvt')
               \<and> (\<exists>xs ys. sources pvt = xs @ ((order, name), src) # ys \<and> sources pvt' = xs @ ys)
               \<and> Suc (length (sources pvt')) = length (sources pvt)
               \<and> find_source (order, name) (sources pvt') = None
               \<and> (\<forall>k. k \<noteq> (order, name) \<longrightarrow>
                     find_source k (sources pvt') = find_source k (sources pvt))"
    by blast
qed

theorem removeSource_spec_witness:
  "registry_ok [((-1, ''server''), (\<lambda>ns. (\<lambda>i. False, False))), ((0, ''pv''), (\<lambda>ns. (\<lambda>i. True, False)))]
   \<and> removeSource ''other'' 0
        (Some \<lparr>sources = [((-1, ''server''), (\<lambda>ns. (\<lambda>i. False, False))), ((0, ''pv''), (\<lambda>ns. (\<lambda>i. True, False)))]\<rparr>)
       = Inr (None, Some \<lparr>sources = [((-1, ''server''), (\<lambda>ns. (\<lambda>i. False, False))), ((0, ''pv''), (\<lambda>ns. (\<lambda>i. True, False)))]\<rparr>)
   \<and> (\<exists>pvt'. removeSource ''pv'' 0
        (Some \<lparr>sources = [((-1, ''server''), (\<lambda>ns. (\<lambda>i. False, False))), ((0, ''pv''), (\<lambda>ns. (\<lambda>i. True, False)))]\<rparr>)
       = Inr (Some (\<lambda>ns. (\<lambda>i. True, False)), Some pvt')
     \<and> length (sources pvt') = 1 \<and> find_source (0, ''pv'') (sources pvt') = None)"
proof -
  let ?r = "[((-1, ''server''), (\<lambda>ns. (\<lambda>i. False, False))), ((0, ''pv''), (\<lambda>ns. (\<lambda>i. True, False)))] :: registry"
  have ok: "registry_ok (sources \<lparr>sources = ?r\<rparr>)"
    by (simp add: registry_ok_def)
  have a: "find_source (0, ''other'') (sources \<lparr>sources = ?r\<rparr>) = None"
    by simp
  have b: "find_source (0, ''pv'') (sources \<lparr>sources = ?r\<rparr>) = Some (\<lambda>ns. (\<lambda>i. True, False))"
    by simp
  from removeSource_spec [OF ok, of 0 "''other''"] a
  have 1: "removeSource ''other'' 0 (Some \<lparr>sources = ?r\<rparr>) = Inr (None, Some \<lparr>sources = ?r\<rparr>)"
    by blast
  from removeSource_spec [OF ok, of 0 "''pv''"] b
  obtain pvt' where "removeSource ''pv'' 0 (Some \<lparr>sources = ?r\<rparr>) = Inr (Some (\<lambda>ns. (\<lambda>i. True, False)), Some pvt')"
     "Suc (length (sources pvt')) = length (sources \<lparr>sources = ?r\<rparr>)"
     "find_source (0, ''pv'') (sources pvt') = None"
    by blast
  then have 2: "\<exists>pvt'. removeSource ''pv'' 0 (Some \<lparr>sources = ?r\<rparr>) = Inr (Some (\<lambda>ns. (\<lambda>i. True, False)), Some pvt')
     \<and> length (sources pvt') = 1 \<and> find_source (0, ''pv'') (sources pvt') = None"
    by auto
  from ok 1 2 show ?thesis by simp
qed

subsection \<open>Configuration from the environment\<close>

text \<open>
  A word that the address parser rejects is matched again by the next iteration, since
  the rejected path does not advance the input: the loop never leaves it.
\<close>

lemma split_addr_into_stuck:
  assumes "inp \<noteq> []" "regex_word inp = Some (w, rest)" "ip w = None"
  shows "split_addr_into ip name st inp = None"
proof -
  have H: "ip' \<noteq> ip \<or> inp' \<noteq> inp"
    if "split_addr_into ip' name' st' inp' = Some r" for ip' name' st' inp' r
  proof (rule split_addr_into.raw_induct [where P = "\<lambda>ip' name' st' inp' r. ip' \<noteq> ip \<or> inp' \<noteq> inp", OF _ that])
    fix f :: "(string \<Rightarrow> string option) \<Rightarrow> string \<Rightarrow> string list \<times> log_entry list \<Rightarrow> string
       \<Rightarrow> (string list \<times> log_entry list) option"
    fix ip1 name1 st1 inp1 r1
    assume IH: "\<And>a b c d y. f a b c d = Some y \<Longrightarrow> a \<noteq> ip \<or> d \<noteq> inp"
    assume step: "(if inp1 = [] then Some st1
      else (case regex_word inp1 of None \<Rightarrow> Some st1
           | Some (w, rest) \<Rightarrow>
               (case ip1 w of
               None \<Rightarrow> f ip1 name1 (fst st1, snd st1 @ [IgnoringInvalid name1 w]) inp1
               | Some dotted \<Rightarrow> f ip1 name1 (fst st1 @ [dotted], snd st1) rest))) = Some r1"
    show "ip1 \<noteq> ip \<or> inp1 \<noteq> inp"
    proof (rule ccontr)
      assume "\<not> (ip1 \<noteq> ip \<or> inp1 \<noteq> inp)"
      then have e: "ip1 = ip" "inp1 = inp" by simp_all
      with step assms have "f ip name1 (fst st1, snd st1 @ [IgnoringInvalid name1 w]) inp = Some r1"
        by simp
      from IH [OF this] show False by simp
    qed
  qed
  show ?thesis
  proof (cases "split_addr_into ip name st inp")
    case None
    then show ?thesis .
  next
    case (Some r)
    from H [OF Some] show ?thesis by simp
  qed
qed

text \<open>The port part of from_env: a value that is no integer is logged and the port stays.\<close>

lemma from_env_ports_invalid_tcp:
  assumes "pickenv env [''EPICS_PVAS_AUTO_BEACON_ADDR_LIST'', ''EPICS_PVA_AUTO_ADDR_LIST''] = None"
    and "pickenv env [''EPICS_PVAS_SERVER_PORT'', ''EPICS_PVA_SERVER_PORT''] = Some (name, val)"
    and "lexical_cast val = None"
    and "pickenv env [''EPICS_PVAS_BROADCAST_PORT'', ''EPICS_PVA_BROADCAST_PORT''] = None"
  shows "from_env_ports lexical_cast env (ret, lg) = (ret, lg @ [InvalidInteger name])"
  using assms by (simp add: from_env_ports_def)

text \<open>
  C8. The claim fails on the code. With the interface list set to an entry the address
  parser rejects followed by a valid one, from_env does not return: the value None of
  the model is a call that runs forever, logging the same entry again and again.
\<close>

theorem from_env_invalid_address_never_returns:
  "from_env (\<lambda>w. if w = ''10.0.0.1'' then Some w else None) lexical_cast dflt
     [''EPICS_PVAS_INTF_ADDR_LIST'' \<mapsto> ''bogus 10.0.0.1''] = None"
proof -
  have m: "regex_word ''bogus 10.0.0.1'' = Some (''bogus'', '' 10.0.0.1'')"
    by (simp add: regex_word_def is_space_def is_line_terminator_def)
  have "split_addr_into (\<lambda>w. if w = ''10.0.0.1'' then Some w else None) ''EPICS_PVAS_INTF_ADDR_LIST''
          st ''bogus 10.0.0.1'' = None" for st
    by (rule split_addr_into_stuck [OF _ m]) simp_all
  then show ?thesis
    by (simp add: from_env_def)
qed

subsection \<open>Search replies\<close>

lemma apply_claims_props:
  "length (apply_claims cl ns) = length ns"
  "map name_of (apply_claims cl ns) = map name_of ns"
  "i < length ns \<Longrightarrow> claim (apply_claims cl ns ! i) = (claim (ns ! i) \<or> cl i)"
proof -
  show "length (apply_claims cl ns) = length ns"
    by (simp add: apply_claims_def)
  show "map name_of (apply_claims cl ns) = map name_of ns"
    by (rule nth_equalityI) (simp_all add: apply_claims_def)
  show "i < length ns \<Longrightarrow> claim (apply_claims cl ns ! i) = (claim (ns ! i) \<or> cl i)"
    by (simp add: apply_claims_def)
qed

lemma run_sources_props:
  assumes "run_sources r (ns, lg) = (ns', lg')"
  shows "length ns' = length ns \<and> map name_of ns' = map name_of ns
       \<and> (\<forall>i < length ns. claim (ns' ! i) = (claim (ns ! i) \<or> (\<exists>(k, s) \<in> set r. fst (s (map name_of ns)) i)))"
  using assms
proof (induction r arbitrary: ns lg)
  case Nil
  then show ?case by simp
next
  case (Cons e r)
  obtain k s where e: "e = (k, s)" by (cases e)
  obtain cl threw where c: "s (map name_of ns) = (cl, threw)" by (cases "s (map name_of ns)")
  let ?ns1 = "apply_claims cl ns"
  from Cons.prems e c
  have "run_sources r (?ns1, if threw then lg @ [SourceError (snd k)] else lg) = (ns', lg')"
    by simp
  from Cons.IH [OF this]
  have IH: "length ns' = length ?ns1" "map name_of ns' = map name_of ?ns1"
    "\<forall>i < length ?ns1. claim (ns' ! i) = (claim (?ns1 ! i) \<or> (\<exists>(k, s) \<in> set r. fst (s (map name_of ?ns1)) i))"
    by simp_all
  have "\<forall>i < length ns. claim (ns' ! i) = (claim (ns ! i) \<or> (\<exists>(k, s) \<in> set (e # r). fst (s (map name_of ns)) i))"
  proof (intro allI impI)
    fix i assume i: "i < length ns"
    with IH(3) have "claim (ns' ! i) = (claim (?ns1 ! i) \<or> (\<exists>(k, s) \<in> set r. fst (s (map name_of ns)) i))"
      by (simp add: apply_claims_props)
    with i e c show "claim (ns' ! i) = (claim (ns ! i) \<or> (\<exists>(k, s) \<in> set (e # r). fst (s (map name_of ns)) i))"
      by (auto simp: apply_claims_props)
  qed
  with IH show ?case by (simp add: apply_claims_props)
qed

lemma count_claims_fold:
  "fold (\<lambda>n c. if claim n then c + 1 else c) ns (c0 :: 16 word) = c0 + of_nat (length (filter claim ns))"
  by (induction ns arbitrary: c0) simp_all

lemma count_claims_eq: "count_claims ns = of_nat (length (filter claim ns))"
  by (simp add: count_claims_def count_claims_fold)

lemma count_claims_zero:
  assumes "length ns < 65536"
  shows "count_claims ns = 0 \<longleftrightarrow> filter claim ns = []"
proof -
  have "length (filter claim ns) < 65536"
    by (rule le_less_trans [OF length_filter_le assms])
  then have "length (filter claim ns) < 2 ^ 16"
    by simp
  then have "unat (of_nat (length (filter claim ns)) :: 16 word) = length (filter claim ns)"
    by (simp add: unat_of_nat)
  then have "(of_nat (length (filter claim ns)) :: 16 word) = 0 \<longleftrightarrow> length (filter claim ns) = 0"
    by (metis unat_eq_0)
  then show ?thesis
    by (simp add: count_claims_eq)
qed

lemma put_ids_fold:
  assumes "vec_ok b"
  shows "vec_ok (fold (\<lambda>i b. if claim (ns ! i) then to_wire_u32 (fst (nms ! i)) b else b) js b)
       \<and> written (fold (\<lambda>i b. if claim (ns ! i) then to_wire_u32 (fst (nms ! i)) b else b) js b)
           = written b @ concat (map (\<lambda>i. if claim (ns ! i) then wire_bytes True 4 (fst (nms ! i)) else []) js)"
  using assms
proof (induction js arbitrary: b)
  case Nil
  then show ?case by simp
next
  case (Cons j js)
  show ?case
  proof (cases "claim (ns ! j)")
    case True
    from to_wire_vec(3) [OF Cons.prems, of "fst (nms ! j)"]
    have 1: "vec_ok (to_wire_u32 (fst (nms ! j)) b)"
      and 2: "written (to_wire_u32 (fst (nms ! j)) b) = written b @ wire_bytes True 4 (fst (nms ! j))"
      by simp_all
    from Cons.IH [OF 1] 2 True show ?thesis by simp
  next
    case False
    with Cons.IH [OF Cons.prems] show ?thesis by simp
  qed
qed

lemma concat_if_filter:
  "concat (map (\<lambda>i. if P i then f i else []) js) = concat (map f (filter P js))"
  by (induction js) simp_all

lemma header_fixed:
  assumes "length bs = 8"
  shows "good (to_wire_Header \<lparr>cmd = c, flags = pva_flags_Server, len = of_nat n\<rparr> (FixedBuf True bs))"
    and "mem (to_wire_Header \<lparr>cmd = c, flags = pva_flags_Server, len = of_nat n\<rparr> (FixedBuf True bs))
          = header_bytes c n"
  using assms
  by (simp_all add: to_wire_Header_def FixedBuf_def to_wire_u8_def to_wire_u32_def put_bytes_def
        good_def header_bytes_def length_wire_bytes)

lemma ids_of_claims:
  assumes len: "length ns = length nms"
    and cl: "\<forall>i < length nms. claim (ns ! i) = claimed_by r (map snd nms) i"
  shows "length (filter claim ns) = length (claimed_ids r nms)"
    and "concat (map (\<lambda>i. if claim (ns ! i) then wire_bytes True 4 (fst (nms ! i)) else []) [0..<length nms])
          = concat (map (wire_bytes True 4) (claimed_ids r nms))"
proof -
  have f: "filter (\<lambda>i. claim (ns ! i)) [0..<length nms] = filter (claimed_by r (map snd nms)) [0..<length nms]"
    using cl by (intro filter_cong) simp_all
  have "length (filter claim ns) = card {i. i < length ns \<and> claim (ns ! i)}"
    by (rule length_filter_conv_card)
  also have "\<dots> = card (set (filter (\<lambda>i. claim (ns ! i)) [0..<length nms]))"
    using len by (intro arg_cong [where f = card]) auto
  also have "\<dots> = length (filter (\<lambda>i. claim (ns ! i)) [0..<length nms])"
    by (rule distinct_card) simp
  finally show "length (filter claim ns) = length (claimed_ids r nms)"
    by (simp add: claimed_ids_def f)
  show "concat (map (\<lambda>i. if claim (ns ! i) then wire_bytes True 4 (fst (nms ! i)) else []) [0..<length nms])
          = concat (map (wire_bytes True 4) (claimed_ids r nms))"
    by (simp add: concat_if_filter claimed_ids_def f comp_def)
qed

text \<open>
  C6. For a search message whose name count fits the 16-bit counter (the count field of
  a search request is 16 bits wide) and a server with its 12 byte GUID: when no name is
  claimed and mustReply is false, onSearch hands no datagram to the reply channel;
  otherwise the datagram is the 8 byte header followed by the body, and the body is the
  GUID, the searchID, the wildcard address, the configured TCP port, the string tcp,
  one byte that is 1 iff a name is claimed, the 16-bit count of claimed names and the
  32-bit id of each claimed name in the order of the request.
\<close>

theorem onSearch_reply:
  assumes n: "length (names msg) < 65536" and g: "length (guid (effective pvt)) = 12"
  shows "snd (snd (onSearch msg pvt)) =
     (let ids = claimed_ids (sources pvt) (names msg);
          body = search_reply_body (effective pvt) (searchID msg) ids
      in if ids = [] \<and> \<not> mustReply msg then None
         else Some (header_bytes CMD_SEARCH_RESPONSE (length body) @ body))"
proof -
  let ?ns0 = "map (\<lambda>(i, n). \<lparr>name_of = n, claim = False\<rparr>) (names msg)"
  let ?ids = "claimed_ids (sources pvt) (names msg)"
  let ?body = "search_reply_body (effective pvt) (searchID msg) ?ids"
  obtain ns lg where rs: "run_sources (sources pvt) (?ns0, []) = (ns, lg)"
    by (cases "run_sources (sources pvt) (?ns0, [])")
  have nm0: "name_of \<circ> (\<lambda>(i, n). \<lparr>name_of = n, claim = False\<rparr>) = (snd :: 32 word \<times> string \<Rightarrow> string)"
    by (auto simp: fun_eq_iff)
  from run_sources_props [OF rs]
  have len: "length ns = length (names msg)"
    and cl: "\<forall>i < length (names msg). claim (ns ! i) = claimed_by (sources pvt) (map snd (names msg)) i"
    by (simp_all add: nm0 claimed_by_def case_prod_beta)
  note ids = ids_of_claims [OF len cl]
  have zero: "count_claims ns = 0 \<longleftrightarrow> ?ids = []"
    using count_claims_zero [of ns] n len ids(1) by (metis length_0_conv)
  show ?thesis
  proof (cases "?ids = [] \<and> \<not> mustReply msg")
    case True
    with zero rs show ?thesis
      by (simp add: onSearch_def Let_def)
  next
    case False
    define M0 where "M0 = VectorOutBuf True (searchReply pvt)"
    define M1 where "M1 = skip 8 M0"
    define M2 where "M2 = put_bytes (take 12 (guid (effective pvt))) M1"
    define M3 where "M3 = to_wire_u32 (searchID msg) M2"
    define M4 where "M4 = to_wire_SockAddr_any M3"
    define M5 where "M5 = to_wire_u16 (tcp_port (effective pvt)) M4"
    define M6 where "M6 = to_wire_string (str ''tcp'') M5"
    define M7 where "M7 = to_wire_u8 (if count_claims ns \<noteq> 0 then 1 else 0) M6"
    define M8 where "M8 = to_wire_u16 (count_claims ns) M7"
    define M9 where "M9 = put_claimed_ids (names msg) ns M8"
    define H where "H = to_wire_Header \<lparr>cmd = CMD_SEARCH_RESPONSE, flags = pva_flags_Server,
                                     len = of_nat (pos M9 - 8)\<rparr> (FixedBuf True (take 8 (mem M9)))"
    have r: "snd (snd (onSearch msg pvt)) =
        (if \<not> good M9 \<or> \<not> good H then None else Some (take (pos M9) (mem H @ drop 8 (mem M9))))"
    proof -
      have c: "(if count_claims ns = 0 \<and> \<not> mustReply msg then A else B) = B" for A B :: 'z
        using False zero by auto
      show ?thesis
        by (simp add: onSearch_def Let_def rs c M0_def M1_def M2_def M3_def M4_def M5_def M6_def
            M7_def M8_def M9_def H_def)
    qed
    have v0: "vec_ok M0" and w0: "written M0 = []"
      by (simp_all add: M0_def VectorOutBuf_def vec_ok_def written_def)
    from skip_vec [OF v0, of 8] obtain pad where
      v1: "vec_ok M1" and pad: "length pad = 8" and w1: "written M1 = pad"
      by (auto simp: M1_def w0)
    have v2: "vec_ok M2" and w2: "written M2 = pad @ guid (effective pvt)"
      using put_bytes_vec [OF v1] g by (simp_all add: M2_def w1)
    have v3: "vec_ok M3" and w3: "written M3 = written M2 @ wire_bytes True 4 (searchID msg)"
      using to_wire_vec(3) [OF v2] by (simp_all add: M3_def)
    have v4: "vec_ok M4" and w4: "written M4 = written M3 @ sockaddr_any_wire"
      using to_wire_vec(4) [OF v3] by (simp_all add: M4_def)
    have v5: "vec_ok M5" and w5: "written M5 = written M4 @ wire_bytes True 2 (tcp_port (effective pvt))"
      using to_wire_vec(2) [OF v4] by (simp_all add: M5_def)
    have v6: "vec_ok M6" and w6: "written M6 = written M5 @ [3] @ str ''tcp''"
      using to_wire_tcp_vec [OF v5] by (simp_all add: M6_def)
    have v7: "vec_ok M7" and w7: "written M7 = written M6 @ [if ?ids = [] then 0 else 1]"
      using to_wire_vec(1) [OF v6] zero by (simp_all add: M7_def)
    have v8: "vec_ok M8"
      and w8: "written M8 = written M7 @ wire_bytes True 2 (of_nat (length ?ids) :: 16 word)"
      using to_wire_vec(2) [OF v7] ids(1) by (simp_all add: M8_def count_claims_eq)
    have v9: "vec_ok M9"
      and w9: "written M9 = written M8 @ concat (map (wire_bytes True 4) ?ids)"
      using put_ids_fold [OF v8, of ns "names msg" "[0..<length (names msg)]"] ids(2)
      by (simp_all add: M9_def put_claimed_ids_def)
    have w: "written M9 = pad @ ?body"
      by (simp add: w9 w8 w7 w6 w5 w4 w3 w2 search_reply_body_def)
    then have p9: "pos M9 = 8 + length ?body"
      using v9 pad by (metis length_append length_take min.absorb2 vec_ok_def written_def)
    have l8: "length (take 8 (mem M9)) = 8"
      using v9 p9 by (simp add: vec_ok_def)
    note h = header_fixed [OF l8, of CMD_SEARCH_RESPONSE "pos M9 - 8"]
    have gH: "good H" and mH: "mem H = header_bytes CMD_SEARCH_RESPONSE (length ?body)"
      using h p9 by (simp_all add: H_def)
    have lh: "length (mem H) = 8"
      by (simp add: mH header_bytes_def length_wire_bytes)
    have "take (pos M9) (mem H @ drop 8 (mem M9)) = mem H @ drop 8 (written M9)"
      using lh p9 by (simp add: written_def drop_take)
    also have "\<dots> = header_bytes CMD_SEARCH_RESPONSE (length ?body) @ ?body"
      using pad by (simp add: w mH)
    finally have "take (pos M9) (mem H @ drop 8 (mem M9))
        = header_bytes CMD_SEARCH_RESPONSE (length ?body) @ ?body" .
    with r gH v9 False show ?thesis
      by (simp add: Let_def vec_ok_def good_def)
  qed
qed

theorem onSearch_reply_witness:
  "length (names example_search) < 65536 \<and> length (guid (effective example_pvt)) = 12
   \<and> snd (snd (onSearch example_search example_pvt)) =
       Some ([0xCA, 2, 0xC0, 4, 0, 0, 0, 45]
             @ [1, 2, 3, 4, 5, 6, 7, 8, 9, 10, 11, 12]
             @ [0x11, 0x22, 0x33, 0x44]
             @ [0, 0, 0, 0, 0, 0, 0, 0, 0, 0, 0xFF, 0xFF, 0, 0, 0, 0]
             @ [0x13, 0xD3]
             @ [3, 116, 99, 112]
             @ [1]
             @ [0, 1]
             @ [0, 0, 0, 2])"
proof -
  have n: "length (names example_search) < 65536"
    by (simp add: example_search_def)
  have g: "length (guid (effective example_pvt)) = 12"
    by (simp add: example_pvt_def example_config_def)
  have ids: "claimed_ids (sources example_pvt) (names example_search) = [2]"
    by (simp add: claimed_ids_def claimed_by_def example_pvt_def example_search_def
          example_source_def upt_rec)
  have any: "sockaddr_any_wire = [0, 0, 0, 0, 0, 0, 0, 0, 0, 0, 0xFF, 0xFF, 0, 0, 0, 0]"
    by (simp add: sockaddr_any_wire_def numeral_eq_Suc)
  have body: "search_reply_body (effective example_pvt) (searchID example_search) [2] =
      [1, 2, 3, 4, 5, 6, 7, 8, 9, 10, 11, 12] @ [0x11, 0x22, 0x33, 0x44]
        @ [0, 0, 0, 0, 0, 0, 0, 0, 0, 0, 0xFF, 0xFF, 0, 0, 0, 0] @ [0x13, 0xD3]
        @ [3, 116, 99, 112] @ [1] @ [0, 1] @ [0, 0, 0, 2]"
    by (simp add: search_reply_body_def any wire_bytes_eval example_pvt_def example_config_def
          example_search_def)
  have hdr: "header_bytes CMD_SEARCH_RESPONSE 45 = [0xCA, 2, 0xC0, 4, 0, 0, 0, 45]"
    by (simp add: header_bytes_def wire_bytes_eval pva_version_server_def pva_flags_Server_def
          pva_flags_MSB_def CMD_SEARCH_RESPONSE_def)
  have "snd (snd (onSearch example_search example_pvt)) =
          Some (header_bytes CMD_SEARCH_RESPONSE
                  (length (search_reply_body (effective example_pvt) (searchID example_search) [2]))
                @ search_reply_body (effective example_pvt) (searchID example_search) [2])"
    using onSearch_reply [OF n g] by (simp add: ids Let_def)
  also have "length (search_reply_body (effective example_pvt) (searchID example_search) [2]) = 45"
    by (simp add: body)
  finally show ?thesis
    using n g by (simp add: body hdr)
qed

subsection \<open>Beacons\<close>

lemma doBeacons_run:
  assumes g: "length (guid (effective pvt)) = 12"
    and lb: "47 \<le> length (beaconMsg pvt)"
    and ls: "8 \<le> length (searchReply pvt)"
  shows "\<exists>pvt'. doBeacons pvt =
            Inr (pvt', map (\<lambda>dest. (dest, sendto_payload (beaconMsg pvt')
                                   (beaconMsg_data pvt + 47 - searchReply_data pvt))) (beaconDest pvt))
          \<and> take 8 (beaconMsg pvt') = take 8 (beaconMsg pvt)
          \<and> length (beaconMsg pvt') = length (beaconMsg pvt)
          \<and> take 4 (searchReply pvt') = [0xCA, pva_version_server, pva_flags_Server OR pva_flags_MSB, CMD_BEACON]"
proof -
  define M0 where "M0 = VectorOutBuf True (beaconMsg pvt)"
  define M1 where "M1 = skip 8 M0"
  define M2 where "M2 = put_bytes (take 12 (guid (effective pvt))) M1"
  define M3 where "M3 = skip 4 M2"
  define M4 where "M4 = put_bytes sockaddr_any_wire M3"
  define M5 where "M5 = put_bytes (wire_bytes True 2 (tcp_port (effective pvt))) M4"
  define M6a where "M6a = put_bytes [3] M5"
  define M6 where "M6 = put_bytes (str ''tcp'') M6a"
  define M7 where "M7 = put_bytes [0xFF] M6"
  define pktlen where "pktlen = (beaconMsg_data pvt + int (pos M7)) - searchReply_data pvt"
  define H where "H = to_wire_Header \<lparr>cmd = CMD_BEACON, flags = pva_flags_Server,
                        len = of_int (pktlen - 8)\<rparr> (FixedBuf True (take 8 (searchReply pvt)))"
  define pvt' where "pvt' = pvt\<lparr>beaconMsg := mem M7, searchReply := mem H @ drop 8 (searchReply pvt)\<rparr>"
  have sa: "length sockaddr_any_wire = 16"
    by (simp add: sockaddr_any_wire_def)
  have p0: "\<not> err M0" "pos M0 = 0" "mem M0 = beaconMsg pvt" "be M0"
    by (simp_all add: M0_def VectorOutBuf_def)
  have p1: "\<not> err M1" "pos M1 = 8" "mem M1 = beaconMsg pvt" "be M1"
    using skip_inplace [of M0 8] p0 lb by (simp_all add: M1_def)
  have p2: "\<not> err M2" "pos M2 = 20" "length (mem M2) = length (beaconMsg pvt)" "be M2"
      "take 8 (mem M2) = take 8 (beaconMsg pvt)"
    using put_bytes_inplace [of M1 "take 12 (guid (effective pvt))"] put_bytes_inplace_take [of M1 "take 12 (guid (effective pvt))" 8] p1 lb g by (simp_all add: M2_def)
  have p3: "\<not> err M3" "pos M3 = 24" "mem M3 = mem M2" "be M3"
    using skip_inplace [of M2 4] p2 lb by (simp_all add: M3_def)
  have p4: "\<not> err M4" "pos M4 = 40" "length (mem M4) = length (beaconMsg pvt)" "be M4"
      "take 8 (mem M4) = take 8 (beaconMsg pvt)"
    using put_bytes_inplace [of M3 sockaddr_any_wire] put_bytes_inplace_take [of M3 sockaddr_any_wire 8] p3 p2 lb sa by (simp_all add: M4_def)
  have p5: "\<not> err M5" "pos M5 = 42" "length (mem M5) = length (beaconMsg pvt)" "be M5"
      "take 8 (mem M5) = take 8 (beaconMsg pvt)"
    using put_bytes_inplace [of M4 "wire_bytes True 2 (tcp_port (effective pvt))"] put_bytes_inplace_take [of M4 "wire_bytes True 2 (tcp_port (effective pvt))" 8] p4 lb
    by (simp_all add: M5_def length_wire_bytes)
  have p6a: "\<not> err M6a" "pos M6a = 43" "length (mem M6a) = length (beaconMsg pvt)" "be M6a"
      "take 8 (mem M6a) = take 8 (beaconMsg pvt)"
    using put_bytes_inplace [of M5 "[3]"] put_bytes_inplace_take [of M5 "[3]" 8] p5 lb by (simp_all add: M6a_def)
  have p6: "\<not> err M6" "pos M6 = 46" "length (mem M6) = length (beaconMsg pvt)" "be M6"
      "take 8 (mem M6) = take 8 (beaconMsg pvt)"
    using put_bytes_inplace [of M6a "str ''tcp''"] put_bytes_inplace_take [of M6a "str ''tcp''" 8] p6a lb by (simp_all add: M6_def)
  have p7: "\<not> err M7" "pos M7 = 47" "length (mem M7) = length (beaconMsg pvt)"
      "take 8 (mem M7) = take 8 (beaconMsg pvt)"
    using put_bytes_inplace [of M6 "[0xFF]"] put_bytes_inplace_take [of M6 "[0xFF]" 8] p6 lb by (simp_all add: M7_def)
  have r: "doBeacons pvt = (if \<not> (good M7 \<and> good H) then Inl AssertFailed
      else Inr (pvt', map (\<lambda>dest. (dest, sendto_payload (beaconMsg pvt') pktlen)) (beaconDest pvt')))"
    using p1(4) p3(4) p4(4)
    by (simp add: doBeacons_def Let_def M0_def M1_def M2_def M3_def M4_def M5_def M6a_def M6_def M7_def
          pktlen_def H_def pvt'_def to_wire_SockAddr_any_def to_wire_u16_def to_wire_string_def
          to_wire_Size_def to_wire_u8_def)
  have l8: "length (take 8 (searchReply pvt)) = 8"
    using ls by simp
  have h: "good H" "take 4 (mem H) = [0xCA, pva_version_server, pva_flags_Server OR pva_flags_MSB, CMD_BEACON]" "length (mem H) = 8"
    using l8 by (simp_all add: H_def to_wire_Header_def FixedBuf_def to_wire_u8_def to_wire_u32_def
          put_bytes_def good_def length_wire_bytes)
  have "doBeacons pvt = Inr (pvt', map (\<lambda>dest. (dest, sendto_payload (beaconMsg pvt')
                                   (beaconMsg_data pvt + 47 - searchReply_data pvt))) (beaconDest pvt))"
    using h(1) p7 by (simp add: r good_def pktlen_def pvt'_def)
  moreover have "take 8 (beaconMsg pvt') = take 8 (beaconMsg pvt)"
    by (simp add: pvt'_def p7)
  moreover have "length (beaconMsg pvt') = length (beaconMsg pvt)"
    by (simp add: pvt'_def p7)
  moreover have "take 4 (searchReply pvt') = [0xCA, pva_version_server, pva_flags_Server OR pva_flags_MSB, CMD_BEACON]"
    using h by (simp add: pvt'_def)
  ultimately show ?thesis by blast
qed


text \<open>
  Whatever addresses the two vectors have: as separate blocks of 65536 and 128 bytes they
  do not overlap, so the length of line 622 is either negative or beyond the end of the
  beacon vector, and no destination is sent a prefix of the beacon vector.
\<close>

lemma doBeacons_no_layout_sends_the_message:
  assumes g: "length (guid (effective pvt)) = 12"
    and lb: "length (beaconMsg pvt) = 128"
    and ls: "length (searchReply pvt) = 65536"
    and apart: "searchReply_data pvt + 65536 \<le> beaconMsg_data pvt
              \<or> beaconMsg_data pvt + 128 \<le> searchReply_data pvt"
  shows "\<exists>pvt'. doBeacons pvt = Inr (pvt', map (\<lambda>dest. (dest, None)) (beaconDest pvt))"
proof -
  from doBeacons_run [of pvt] g lb ls obtain pvt' where
    r: "doBeacons pvt = Inr (pvt', map (\<lambda>dest. (dest, sendto_payload (beaconMsg pvt')
                                   (beaconMsg_data pvt + 47 - searchReply_data pvt))) (beaconDest pvt))"
    and l: "length (beaconMsg pvt') = length (beaconMsg pvt)"
    by auto
  have "sendto_payload (beaconMsg pvt') (beaconMsg_data pvt + 47 - searchReply_data pvt) = None"
    using apart l lb by (auto simp: sendto_payload_def)
  with r show ?thesis by simp
qed

text \<open>
  C7. The claim fails on the code. On the server of the example, doBeacons returns with
  the first 8 bytes of the beacon vector still zero (no header: a header starts with
  0xCA), the header bytes placed at the start of the search reply vector instead, and a
  transmission length that is not within the beacon vector.
\<close>

theorem doBeacons_header_not_in_beacon:
  "\<exists>pvt'. doBeacons example_pvt = Inr (pvt', [(''10.0.0.255'', None)])
      \<and> take 8 (beaconMsg pvt') = replicate 8 0
      \<and> take 4 (searchReply pvt') = [0xCA, 2, 0xC0, 0]"
proof -
  have g: "length (guid (effective example_pvt)) = 12"
    by (simp add: example_pvt_def example_config_def)
  have lb: "47 \<le> length (beaconMsg example_pvt)"
    by (simp add: example_pvt_def)
  have ls: "8 \<le> length (searchReply example_pvt)"
    by (simp add: example_pvt_def)
  from doBeacons_run [OF g lb ls] obtain pvt' where
    r: "doBeacons example_pvt = Inr (pvt', map (\<lambda>dest. (dest, sendto_payload (beaconMsg pvt')
            (beaconMsg_data example_pvt + 47 - searchReply_data example_pvt))) (beaconDest example_pvt))"
    and t: "take 8 (beaconMsg pvt') = take 8 (beaconMsg example_pvt)"
    and h: "take 4 (searchReply pvt') = [0xCA, pva_version_server, pva_flags_Server OR pva_flags_MSB, CMD_BEACON]"
    by blast
  have a: "beaconMsg_data example_pvt + 47 - searchReply_data example_pvt = - 126929"
    by (simp add: example_pvt_def)
  have d: "beaconDest example_pvt = [''10.0.0.255'']"
    by (simp add: example_pvt_def)
  have 1: "doBeacons example_pvt = Inr (pvt', [(''10.0.0.255'', None)])"
    by (simp add: r a d sendto_payload_def)
  have 2: "take 8 (beaconMsg pvt') = replicate 8 0"
    by (simp add: t example_pvt_def)
  have 3: "take 4 (searchReply pvt') = [0xCA, 2, 0xC0, 0]"
    by (simp add: h pva_version_server_def pva_flags_Server_def pva_flags_MSB_def CMD_BEACON_def)
  from 1 2 3 show ?thesis by blast
qed

section \<open>Properties of the type codec\<close>

subsection \<open>Cache references\<close>

text \<open>
  C5. When from_wire is entered with depth at most 20 and a good buffer whose next three
  bytes are 0xFE and a 16-bit key: if the key is not bound in the cache, or bound to an
  empty vector, the buffer comes back faulted and the node vector and the cache are
  unchanged; if the key is bound to a non-empty vector of nodes, the buffer has advanced
  by the three bytes, stays good, and the cached nodes are appended to the node vector.
\<close>

theorem from_wire_cache_ref:
  assumes d: "depth \<le> 20"
    and rd: "get_bytes 3 buf = (Some [0xFE, k1, k2], buf')"
  shows "(cache (word_of_wire (be buf) [k1, k2]) = None \<or> cache (word_of_wire (be buf) [k1, k2]) = Some []
            \<longrightarrow> from_wire hs depth (buf, descs, cache) = Inr (fault buf', descs, cache))
       \<and> (\<forall>sub. cache (word_of_wire (be buf) [k1, k2]) = Some sub \<and> sub \<noteq> []
            \<longrightarrow> from_wire hs depth (buf, descs, cache) = Inr (buf', descs @ sub, cache))"
proof -
  let ?key = "word_of_wire (be buf) [k1, k2] :: 16 word"
  let ?b1 = "buf\<lparr>pos := Suc (pos buf)\<rparr>"
  have rd': "get_bytes (1 + 2) buf = (Some [0xFE, k1, k2], buf')"
    using rd by (simp add: numeral_3_eq_3)
  have g1: "get_bytes 1 buf = (Some [0xFE], ?b1)" and g2: "get_bytes 2 ?b1 = (Some [k1, k2], buf')"
    using get_bytes_split [OF rd'] by simp_all
  note gd = get_bytes_good [OF rd]
  have u8: "from_wire_u8 0xFF buf = (0xFE, ?b1)"
    by (rule from_wire_u8_next [OF g1])
  have u16: "from_wire_u16 0 ?b1 = (?key, buf')"
    using from_wire_u16_next [OF g2, of 0] by simp
  have step: "from_wire hs depth (buf, descs, cache) =
      (let it = cache ?key; b = (if it = None then fault buf' else buf')
       in if \<not> good b \<or> the it = [] then Inr (fault b, descs, cache)
          else Inr (b, take (length descs) descs @ the it, cache))"
    using d gd(1) by (subst from_wire.simps) (simp add: u8 u16 good_def TypeCode_Null_def Let_def)
  show ?thesis
    using gd(2) by (auto simp: step Let_def good_def fault_def)
qed

theorem from_wire_cache_ref_witness:
  "from_wire (\<lambda>s. 0) 0 (FixedBuf True [0xFE, 1, 2], [],
        [0x0102 \<mapsto> [FieldDesc_default\<lparr>code := TypeCode_Int32, num_index := 1\<rparr>]])
     = Inr (\<lparr>mem = [0xFE, 1, 2], pos = 3, err = False, be = True, growable = False\<rparr>,
            [FieldDesc_default\<lparr>code := TypeCode_Int32, num_index := 1\<rparr>],
            [0x0102 \<mapsto> [FieldDesc_default\<lparr>code := TypeCode_Int32, num_index := 1\<rparr>]])
   \<and> from_wire (\<lambda>s. 0) 0 (FixedBuf True [0xFE, 1, 3], [],
        [0x0102 \<mapsto> [FieldDesc_default\<lparr>code := TypeCode_Int32, num_index := 1\<rparr>]])
     = Inr (\<lparr>mem = [0xFE, 1, 3], pos = 3, err = True, be = True, growable = False\<rparr>,
            [],
            [0x0102 \<mapsto> [FieldDesc_default\<lparr>code := TypeCode_Int32, num_index := 1\<rparr>]])"
proof -
  let ?node = "FieldDesc_default\<lparr>code := TypeCode_Int32, num_index := 1\<rparr>"
  let ?cache = "[0x0102 \<mapsto> [?node]] :: TypeStore"
  have d: "(0::nat) \<le> 20" by simp
  have r1: "get_bytes 3 (FixedBuf True [0xFE, 1, 2])
      = (Some [0xFE, 1, 2], \<lparr>mem = [0xFE, 1, 2], pos = 3, err = False, be = True, growable = False\<rparr>)"
    by (simp add: get_bytes_def FixedBuf_def)
  have r2: "get_bytes 3 (FixedBuf True [0xFE, 1, 3])
      = (Some [0xFE, 1, 3], \<lparr>mem = [0xFE, 1, 3], pos = 3, err = False, be = True, growable = False\<rparr>)"
    by (simp add: get_bytes_def FixedBuf_def)
  have k1: "(word_of_wire (be (FixedBuf True [0xFE, 1, 2])) [1, 2] :: 16 word) = 0x0102"
    by (simp add: word_of_wire_def FixedBuf_def)
  have k2: "(word_of_wire (be (FixedBuf True [0xFE, 1, 3])) [1, 3] :: 16 word) = 0x0103"
    by (simp add: word_of_wire_def FixedBuf_def)
  have c1: "?cache (word_of_wire (be (FixedBuf True [0xFE, 1, 2])) [1, 2]) = Some [?node] \<and> [?node] \<noteq> []"
    by (simp add: k1)
  have c2: "?cache (word_of_wire (be (FixedBuf True [0xFE, 1, 3])) [1, 3]) = None"
    by (simp add: k2)
  from from_wire_cache_ref [OF d r1, of ?cache "\<lambda>s. 0" "[]"] c1
  have 1: "from_wire (\<lambda>s. 0) 0 (FixedBuf True [0xFE, 1, 2], [], ?cache)
      = Inr (\<lparr>mem = [0xFE, 1, 2], pos = 3, err = False, be = True, growable = False\<rparr>, [] @ [?node], ?cache)"
    by blast
  from from_wire_cache_ref [OF d r2, of ?cache "\<lambda>s. 0" "[]"] c2
  have 2: "from_wire (\<lambda>s. 0) 0 (FixedBuf True [0xFE, 1, 3], [], ?cache)
      = Inr (fault \<lparr>mem = [0xFE, 1, 3], pos = 3, err = False, be = True, growable = False\<rparr>, [], ?cache)"
    by blast
  from 1 2 show ?thesis by (simp add: fault_def)
qed

subsection \<open>Flattened member lookup\<close>

text \<open>
  C4. The claim fails on the code. The stream \<open>nested_struct_stream\<close> describes a
  structure with a member b, a structure holding a structure c, holding a 32-bit integer
  x; all ids are empty. Decoded into an empty node vector it gives the nodes 0 (root),
  1 (b), 2 (c) and 3 (x). Node 1 (structure b, position p = 1) maps the path c.x to 3,
  where the node of x lies 2 after b ((c - p) + 1 = 2); and the root maps b.c.x to 4,
  where x lies 3 after the root and the vector has only 4 nodes. The direct members (c
  from b, b.c from the root) are mapped to the right nodes.
\<close>

theorem from_wire_nested_mlookup_index:
  "(case from_wire (\<lambda>s. 0) 0 (FixedBuf True nested_struct_stream, [], Map.empty) of
      Inl e \<Rightarrow> False
    | Inr (b, descs, cache) \<Rightarrow>
        good b \<and> pos b = length nested_struct_stream
      \<and> map code descs = [TypeCode_Struct, TypeCode_Struct, TypeCode_Struct, TypeCode_Int32]
      \<and> map_of (mlookup (descs ! 1)) (str ''c'') = Some 1
      \<and> map_of (mlookup (descs ! 1)) (str ''c.x'') = Some 3
      \<and> map_of (mlookup (descs ! 0)) (str ''b.c'') = Some 2
      \<and> map_of (mlookup (descs ! 0)) (str ''b.c.x'') = Some 4)"
  by code_simp

section \<open>Properties of the value codec\<close>

lemmas codec_simps =
  to_wire_full_def to_wire_full_with_def to_wire_field_body_def from_wire_full_def from_wire_full_with_def
  from_wire_field_body_def returns_def aborts_def bind_res_def assert_false_def
  leaf_def FieldDesc_default_def TypeCode_defs build_model_def default_storage_def
  VectorOutBuf_def FixedBuf_def put_bytes_def get_bytes_def fault_def good_def
  to_wire_u8_def to_wire_u16_def to_wire_u32_def to_wire_u64_def to_wire_Size_def to_wire_string_def
  from_wire_u8_def from_wire_u16_def from_wire_u32_def from_wire_u64_def from_wire_Size_def
  from_wire_string_def word_of_wire_def size_null_def to_wire_array_def from_wire_array_def
  castTo_bool_def castTo_u8_def castTo_u16_def castTo_u32_def castTo_u64_def castTo_string_def castTo_Value_def

subsection \<open>Round trip of a full value\<close>

text \<open>
  An array of booleans is written as its size and one byte per element; decoding these
  bytes into a fresh Value of the same type consumes them and leaves the array of the
  Value empty, since the template of lines 219-230 drops the array it has read.
\<close>

lemma full_round_trip_boolA:
  "to_wire_full (Suc n) env (VectorOutBuf True []) boolA_value
     = returns \<lparr>mem = [3, 1, 0, 1], pos = 4, err = False, be = True, growable = True\<rparr>
   \<and> from_wire_full (Suc m) env (FixedBuf True [3, 1, 0, 1]) cache (build_model boolA_descs 0)
     = returns (\<lparr>mem = [3, 1, 0, 1], pos = 4, err = False, be = True, growable = False\<rparr>, cache,
                Value_at boolA_descs 0 [Store_Array Arr_empty] [0] 0)"
proof -
  have three: "(f ^^ 3) x = f (f (f x))" for f :: "Buffer \<Rightarrow> Buffer" and x
    by (simp add: numeral_3_eq_3)
  have enc: "to_wire_full (Suc n) env (VectorOutBuf True []) boolA_value
     = returns \<lparr>mem = [3, 1, 0, 1], pos = 4, err = False, be = True, growable = True\<rparr>"
    by (simp add: codec_simps boolA_value_def boolA_descs_def)
  have dec: "from_wire_full (Suc m) env (FixedBuf True [3, 1, 0, 1]) cache (build_model boolA_descs 0)
     = returns (\<lparr>mem = [3, 1, 0, 1], pos = 4, err = False, be = True, growable = False\<rparr>, cache,
                Value_at boolA_descs 0 [Store_Array Arr_empty] [0] 0)"
    by (simp add: codec_simps boolA_descs_def three)
  from enc dec show ?thesis by simp
qed

text \<open>
  C1. The claim fails on the code. The Value of type UInt8 holding 200 is written as the
  byte 0xC8; decoding that byte into a fresh Value of the same type returns, with a good
  buffer, a Value whose cell holds 0xFFFFFFFFFFFFFFC8: line 490 reads the byte as a
  signed 8-bit integer and widens it with its sign. The cell of the original holds 200.
\<close>

theorem full_round_trip_uint8:
  "to_wire_full (Suc n) env (VectorOutBuf True []) uint8_value
     = returns \<lparr>mem = [0xC8], pos = 1, err = False, be = True, growable = True\<rparr>
   \<and> from_wire_full (Suc m) env (FixedBuf True [0xC8]) cache (build_model uint8_descs 0)
     = returns (\<lparr>mem = [0xC8], pos = 1, err = False, be = True, growable = False\<rparr>, cache,
                Value_at uint8_descs 0 [Store_UInteger 0xFFFFFFFFFFFFFFC8] [0] 0)
   \<and> uint8_value = Value_at uint8_descs 0 [Store_UInteger 200] [0] 0"
  by (simp add: codec_simps uint8_value_def uint8_descs_def)

subsection \<open>Arrays of scalars\<close>

text \<open>
  The labels of the numeric array cases (lines 335-352) are the codes of the scalars. A
  field whose node has the code of an array of numbers and whose cell is an array matches
  none of them and ends at line 405.
\<close>

lemma to_wire_field_numeric_array:
  assumes "desc < length descs" and "store < length ms" and "ms ! store = Store_Array a"
    and "code (descs ! desc) \<in> {TypeCode_Int8A, TypeCode_Int16A, TypeCode_Int32A, TypeCode_Int64A,
            TypeCode_UInt8A, TypeCode_UInt16A, TypeCode_UInt32A, TypeCode_UInt64A,
            TypeCode_Float32A, TypeCode_Float64A}"
  shows "to_wire_field (Suc n) env buf descs desc ms mi store = assert_false env buf"
  using assms by (auto simp: to_wire_field_body_def TypeCode_defs)

text \<open>Arrays of booleans and of strings are written as the size and the elements.\<close>

lemma to_wire_field_BoolA:
  assumes "desc < length descs" and "store < length ms" and "ms ! store = Store_Array (Arr_bool xs)"
    and "code (descs ! desc) = TypeCode_BoolA"
  shows "to_wire_field (Suc n) env buf descs desc ms mi store
       = returns (fold (\<lambda>x. to_wire_u8 (if x then 1 else 0)) xs (to_wire_Size (of_nat (length xs)) buf))"
  using assms by (simp add: to_wire_field_body_def TypeCode_defs castTo_bool_def to_wire_array_def)

lemma to_wire_field_StringA:
  assumes "desc < length descs" and "store < length ms" and "ms ! store = Store_Array (Arr_string xs)"
    and "code (descs ! desc) = TypeCode_StringA"
  shows "to_wire_field (Suc n) env buf descs desc ms mi store
       = returns (fold to_wire_string xs (to_wire_Size (of_nat (length xs)) buf))"
  using assms by (simp add: to_wire_field_body_def TypeCode_defs castTo_string_def to_wire_array_def)

text \<open>
  C2. The claim fails on the code. Writing the Value of type Int32A with the elements
  1, 2, 3 emits nothing: with assertions the call ends in the failed assertion of line
  405, without them it returns with the fault flag set (line 406).
\<close>

theorem to_wire_int32A:
  "to_wire_full (Suc n) env (VectorOutBuf True []) int32A_value
     = (if NDEBUG env then returns (fault (VectorOutBuf True [])) else aborts AssertionFailed)"
  by (simp add: codec_simps int32A_value_def int32A_descs_def)

subsection \<open>Presence bytes in arrays of compounds\<close>

text \<open>
  In the loops over the elements of an array of structures, of unions and of any, once
  the presence byte of an element has been read the buffer is good, and the byte is only
  compared with zero: zero gives a null element, every other byte (1 as well as 2 to 255)
  starts the decoding of an element.
\<close>

lemma presence_byte_compared_with_zero:
  assumes p: "get_bytes 1 buf = (Some [present], buf')"
  shows "\<not> err buf'
       \<and> from_wire_StructA_elems env full descs desc (Suc n) (buf, cache, arr)
          = (if present \<noteq> 0
             then bind_res (full buf' cache (build env descs (desc + 1)))
                    (\<lambda>(buf, cache, elem). from_wire_StructA_elems env full descs desc n (buf, cache, arr @ [elem]))
             else from_wire_StructA_elems env full descs desc n (buf', cache, arr @ [Value_null]))
       \<and> (present = 0 \<longrightarrow>
            from_wire_UnionA_elems env full descs cdesc (Suc n) (buf, cache, arr)
              = from_wire_UnionA_elems env full descs cdesc n (buf', cache, arr @ [Value_null]))
       \<and> (present \<noteq> 0 \<longrightarrow>
            from_wire_UnionA_elems env full descs cdesc (Suc n) (buf, cache, arr)
              = (let (select, buf) = from_wire_Size 0 buf'
                 in if select = size_null
                    then from_wire_UnionA_elems env full descs cdesc n (buf, cache, arr @ [Value_null])
                    else if length descs \<le> cdesc then aborts BadPointer
                    else if unat select < length (miter (descs ! cdesc))
                    then bind_res (full buf cache (build env descs (cdesc + snd (miter (descs ! cdesc) ! unat select))))
                           (\<lambda>(buf, cache, elem). from_wire_UnionA_elems env full descs cdesc n (buf, cache, arr @ [elem]))
                    else returns (False, fault buf, cache, arr)))
       \<and> from_wire_AnyA_elems env full (Suc n) (buf, cache, arr)
          = (if present \<noteq> 0
             then (case from_wire (std_hash env) 0 (buf', [], cache) of
                     Inl e \<Rightarrow> aborts (TypeAbort e)
                   | Inr (buf, descs, cache) \<Rightarrow>
                       if \<not> good buf then returns (False, buf, cache, arr)
                       else if descs \<noteq> []
                       then bind_res (full buf cache (build env (FieldDesc_calculate_offset env descs) 0))
                              (\<lambda>(buf, cache, elem). from_wire_AnyA_elems env full n (buf, cache, arr @ [elem]))
                       else from_wire_AnyA_elems env full n (buf, cache, arr @ [Value_null]))
             else from_wire_AnyA_elems env full n (buf', cache, arr @ [Value_null]))"
  using get_bytes_good(2) [OF p] by (simp add: from_wire_u8_next [OF p])

text \<open>
  C3. The claim fails on the code. The presence byte 2 sets no fault in any of the three
  kinds of array. An array of structures {x: Int32} is decoded from the bytes 01 (one
  element), 02 (presence byte), 00 00 00 07: \<open>from_wire_field\<close> returns with the fault
  flag clear and the array holding one element with x = 7. An array of unions {a: Int32,
  b: String} is decoded from 01, 02, 00 (selector of a), 00 00 00 05: the fault flag is
  clear and the element holds the member a = 5. An array of any is decoded from 01, 02,
  FF (the type description Null): the type description is read behind the presence byte,
  the fault flag is clear and the element is null. Lines 590, 607 and 638 test the byte
  with \<open>!=0\<close> under the comment "strictly 1 or 0", and none has a path to
  \<open>buf.fault()\<close> for the presence byte.
\<close>

theorem presence_byte_two_sets_no_fault:
  "from_wire_field (Suc (Suc (Suc 0))) example_env (FixedBuf True [1, 2, 0, 0, 0, 7]) Map.empty
       structA_descs 0 [Store_Array Arr_empty] [0] 0
     = returns (\<lparr>mem = [1, 2, 0, 0, 0, 7], pos = 6, err = False, be = True, growable = False\<rparr>, Map.empty,
                [Store_Array (Arr_Value [Value_at structA_descs 1 [Store_Null, Store_Integer 7] [0, 1] 0])])
   \<and> from_wire_field (Suc (Suc 0)) example_env (FixedBuf True [1, 2, 0, 0, 0, 0, 5]) Map.empty
       unionA_descs 0 [Store_Array Arr_empty] [0] 0
     = returns (\<lparr>mem = [1, 2, 0, 0, 0, 0, 5], pos = 7, err = False, be = True, growable = False\<rparr>, Map.empty,
                [Store_Array (Arr_Value [Value_at unionA_descs 2 [Store_Integer 5] [0] 0])])
   \<and> from_wire_field (Suc 0) example_env (FixedBuf True [1, 2, 0xFF]) Map.empty
       anyA_descs 0 [Store_Array Arr_empty] [0] 0
     = returns (\<lparr>mem = [1, 2, 0xFF], pos = 3, err = False, be = True, growable = False\<rparr>, Map.empty,
                [Store_Array (Arr_Value [Value_null])])"
proof -
  have s: "from_wire_field (Suc (Suc (Suc 0))) example_env (FixedBuf True [1, 2, 0, 0, 0, 7]) Map.empty
       structA_descs 0 [Store_Array Arr_empty] [0] 0
     = returns (\<lparr>mem = [1, 2, 0, 0, 0, 7], pos = 6, err = False, be = True, growable = False\<rparr>, Map.empty,
                [Store_Array (Arr_Value [Value_at structA_descs 1 [Store_Null, Store_Integer 7] [0, 1] 0])])"
    by (simp add: codec_simps example_env_def structA_descs_def upt_rec)
  have u: "from_wire_field (Suc (Suc 0)) example_env (FixedBuf True [1, 2, 0, 0, 0, 0, 5]) Map.empty
       unionA_descs 0 [Store_Array Arr_empty] [0] 0
     = returns (\<lparr>mem = [1, 2, 0, 0, 0, 0, 5], pos = 7, err = False, be = True, growable = False\<rparr>, Map.empty,
                [Store_Array (Arr_Value [Value_at unionA_descs 2 [Store_Integer 5] [0] 0])])"
    by (simp add: codec_simps example_env_def unionA_descs_def)
  have t: "from_wire (\<lambda>s. 0) 0 (\<lparr>mem = [1, 2, 0xFF], pos = Suc (Suc 0), err = False, be = True, growable = False\<rparr>, [], Map.empty)
      = Inr (\<lparr>mem = [1, 2, 0xFF], pos = 3, err = False, be = True, growable = False\<rparr>, [], Map.empty)"
    by (subst from_wire.simps) (simp add: codec_simps)
  have a: "from_wire_field (Suc 0) example_env (FixedBuf True [1, 2, 0xFF]) Map.empty
       anyA_descs 0 [Store_Array Arr_empty] [0] 0
     = returns (\<lparr>mem = [1, 2, 0xFF], pos = 3, err = False, be = True, growable = False\<rparr>, Map.empty,
                [Store_Array (Arr_Value [Value_null])])"
    by (simp add: codec_simps example_env_def anyA_descs_def t)
  from s u a show ?thesis
    by (simp only: simp_thms)
qed

subsection \<open>Union selectors in arrays of unions\<close>









end
